theory Spec2Isabelle
  imports Main
begin

unbundle bit_operations_syntax

section \<open>Constants of project.py\<close>

definition CLI_FILE :: string where
  "CLI_FILE = ''cli.txt''"

definition LAB_IO_FILE :: string where
  "LAB_IO_FILE = ''lab_io.txt''"

text \<open>
  The two triple-quoted pragma blocks. Each begins with the newline that follows the
  opening quotes and ends with the newline before the closing quotes.
\<close>

definition COMMON_ADC :: string where
  "COMMON_ADC =
     ''\<newline>pragma Restrictions (No_Specification_of_Aspect => Import);'' @
     ''\<newline>pragma Restrictions (No_Use_Of_Pragma => Import);'' @
     ''\<newline>pragma Restrictions (No_Use_Of_Pragma => Interface);'' @
     ''\<newline>pragma Restrictions (No_Dependence => System.Machine_Code);'' @
     ''\<newline>pragma Restrictions (No_Dependence => Machine_Code);'' @
     ''\<newline>''"

definition SPARK_ADC :: string where
  "SPARK_ADC =
     ''\<newline>pragma Profile(GNAT_Extended_Ravenscar);'' @
     ''\<newline>pragma Partition_Elaboration_Policy(Sequential);'' @
     ''\<newline>pragma SPARK_Mode (On);'' @
     ''\<newline>pragma Warnings (Off, '' @ [CHR 0x22] @ ''no Global contract available'' @ [CHR 0x22] @ '');'' @
     ''\<newline>pragma Warnings (Off, '' @ [CHR 0x22] @ ''subprogram * has no effect'' @ [CHR 0x22] @ '');'' @
     ''\<newline>pragma Warnings (Off, '' @ [CHR 0x22] @ ''file name does not match'' @ [CHR 0x22] @ '');'' @
     ''\<newline>''"

text \<open>
  \<open>TEMPLATE_PROJECT\<close> is a path below the working directory whose last component is
  \<open>main.gpr\<close>; \<open>os.path.basename\<close> of it is that component whatever the directory.
\<close>

definition gpr_name :: string where
  "gpr_name = ''main.gpr''"

section \<open>Exceptions\<close>

text \<open>
  The exception classes of the module, the built-in exceptions that the modelled paths
  can raise (reading an attribute that was never assigned, indexing an empty list or
  string, removing a directory that does not exist, a time stamp or a header field that
  the ZIP format cannot hold), and the failure of the container while it stages a
  workspace.
\<close>

datatype error =
    ProjectError string
  | BuildError int
  | RunError string
  | ProveError string
  | SubmitError string
  | AttributeError string
  | IndexError
  | FileNotFoundError string
  | ValueError string
  | StructError
  | ContainerError

section \<open>Python string operations used by the module\<close>

text \<open>
  A character of the model is a code point below 256. \<open>str.isspace\<close> holds of these:
  tab to carriage return, the four separators 0x1C to 0x1F, the space, the next-line
  control 0x85 and the no-break space 0xA0.
\<close>

definition py_isspace :: "char \<Rightarrow> bool" where
  "py_isspace c =
     (let n = (of_char c :: nat)
      in (9 \<le> n \<and> n \<le> 13) \<or> (28 \<le> n \<and> n \<le> 32) \<or> n = 133 \<or> n = 160)"

text \<open>\<open>s.split()\<close>: the maximal runs of non-whitespace characters, in order.\<close>

fun split_ws_from :: "string \<Rightarrow> string \<Rightarrow> string list" where
  "split_ws_from w [] = (if w = [] then [] else [w])"
| "split_ws_from w (c # cs) =
     (if py_isspace c then (if w = [] then split_ws_from [] cs else w # split_ws_from [] cs)
      else split_ws_from (w @ [c]) cs)"

definition split_ws :: "string \<Rightarrow> string list" where
  "split_ws s = split_ws_from [] s"

text \<open>\<open>s.split(sep)\<close> for a one-character separator: the fields between separators,
  empty fields kept; the result is never empty.\<close>

fun split_char :: "char \<Rightarrow> string \<Rightarrow> string list" where
  "split_char sep [] = [[]]"
| "split_char sep (c # cs) =
     (if c = sep then [] # split_char sep cs
      else (case split_char sep cs of
              [] \<Rightarrow> [[c]]
            | w # ws \<Rightarrow> (c # w) # ws))"

text \<open>\<open>sep.join(xs)\<close>.\<close>

fun join :: "string \<Rightarrow> string list \<Rightarrow> string" where
  "join sep [] = []"
| "join sep [x] = x"
| "join sep (x # y # ys) = x @ sep @ join sep (y # ys)"

section \<open>Files, test cases and the collaborators outside project.py\<close>

text \<open>An uploaded file: the dictionary with the keys \<open>basename\<close> and \<open>contents\<close>.\<close>

record upload =
  basename :: string
  contents :: string

text \<open>
  Modelled from the spec: the file objects of \<open>file.py\<close> (\<open>new_file\<close>, \<open>get_name\<close>,
  \<open>get_content\<close>, \<open>language\<close>, \<open>insert_languages\<close>, \<open>define_mains\<close>, \<open>find_mains\<close>),
  which is not among the sources. A file is its name, its content and its detected
  language; the manifest also carries the language list and the mains declaration that
  were written into it.
\<close>

record File =
  get_name :: string
  get_content :: string
  language :: string
  languages_decl :: "string list"
  mains_decl :: "string list"

text \<open>
  Modelled from the spec: a test case of \<open>lab.py\<close> (not among the sources) with its key,
  input, expected output and the recorded actual output and exit code.
\<close>

record lab =
  get_key :: string
  get_input :: "string list"
  expected_output :: string
  actual_output :: "string option"
  actual_exit_code :: "int option"

text \<open>
  What the module takes from outside: the content of the template manifest on disk, the
  language heuristic and the entry-point signature of \<open>file.py\<close>, the parser of the
  test specification of \<open>lab.py\<close>, and whether a test-case list defines a length (which
  decides its truth value when it is empty).
\<close>

record env =
  template_content :: string
  detect_language :: "string \<Rightarrow> string \<Rightarrow> string"
  is_main :: "File \<Rightarrow> bool"
  parse_lab_io :: "string \<Rightarrow> lab list"
  lab_list_sized :: bool

definition new_file :: "env \<Rightarrow> string \<Rightarrow> string \<Rightarrow> File" where
  "new_file e n c =
     \<lparr>get_name = n, get_content = c, language = detect_language e n c,
      languages_decl = [], mains_decl = []\<rparr>"

definition insert_languages :: "string list \<Rightarrow> File \<Rightarrow> File" where
  "insert_languages ls g = g\<lparr>languages_decl := ls\<rparr>"

definition define_mains :: "string list \<Rightarrow> File \<Rightarrow> File" where
  "define_mains ms g = g\<lparr>mains_decl := ms\<rparr>"

text \<open>Modelled from the spec: \<open>find_mains\<close> returns the names of the files that match the
  entry-point signature, each file judged on its own, in file order.\<close>

definition find_mains :: "env \<Rightarrow> File list \<Rightarrow> string list" where
  "find_mains e fl = map get_name (filter (is_main e) fl)"

definition LabList :: "env \<Rightarrow> string \<Rightarrow> lab list" where
  "LabList e c = parse_lab_io e c"

section \<open>Project\<close>

text \<open>
  The attributes of a Project. \<open>lab_list\<close> is assigned only when a test-specification
  file is met, so \<open>None\<close> stands for an attribute that does not exist; \<open>cli\<close> and
  \<open>main\<close> are always assigned, \<open>None\<close> being Python's \<open>None\<close>.
\<close>

record project =
  file_list :: "File list"
  cli :: "string list option"
  spark :: bool
  gpr :: File
  lab_list :: "lab list option"
  main :: "string option"

text \<open>The loop that strips the CLI and test-specification files from the uploads. The
  state is \<open>(self.cli, self.lab_list, source_files)\<close>.\<close>

fun strip_files ::
  "env \<Rightarrow> upload list \<Rightarrow> string list option \<times> lab list option \<times> upload list
     \<Rightarrow> string list option \<times> lab list option \<times> upload list" where
  "strip_files e [] st = st"
| "strip_files e (f # fs) (c, l, s) =
     (if basename f = CLI_FILE then strip_files e fs (Some (split_ws (contents f)), l, s)
      else if basename f = LAB_IO_FILE then strip_files e fs (c, Some (LabList e (contents f)), s)
      else strip_files e fs (c, l, s @ [f]))"

definition user_files :: "env \<Rightarrow> upload list \<Rightarrow> File list" where
  "user_files e files =
     (case strip_files e files (None, None, []) of
        (c, l, s) \<Rightarrow> map (\<lambda>f. new_file e (basename f) (contents f)) s)"

definition project_languages :: "File list \<Rightarrow> string list" where
  "project_languages fl =
     (if list_ex (\<lambda>l. language l = ''Ada'') fl then [''Ada''] else []) @
     (if list_ex (\<lambda>l. language l = ''c'') fl then [''c''] else []) @
     (if list_ex (\<lambda>l. language l = ''c++'') fl then [''c++''] else [])"

definition adc_content :: "bool \<Rightarrow> string" where
  "adc_content spark_mode =
     (if spark_mode then COMMON_ADC @ ''\<newline>'' @ SPARK_ADC else COMMON_ADC)"

text \<open>\<open>Project.__init__\<close>. The three branches on \<open>len(mains)\<close> are the three cases of
  the list; \<open>mains[0].split('.')[0]\<close> is the first field of the only name.\<close>

definition project_init :: "env \<Rightarrow> upload list \<Rightarrow> bool \<Rightarrow> error + project" where
  "project_init e files spark_mode =
     (let gpr0 = new_file e gpr_name (template_content e) in
      case strip_files e files (None, None, []) of
        (cli0, lab0, source_files) \<Rightarrow>
          let fl = map (\<lambda>f. new_file e (basename f) (contents f)) source_files;
              gpr1 = insert_languages (project_languages fl) gpr0;
              adc = new_file e ''main.adc'' (adc_content spark_mode)
          in (case find_mains e fl of
               [] \<Rightarrow>
                 Inr \<lparr>file_list = fl @ [gpr1, adc], cli = cli0, spark = spark_mode,
                      gpr = gpr1, lab_list = lab0, main = None\<rparr>
             | [m] \<Rightarrow>
                 (case split_char (CHR ''.'') m of
                    [] \<Rightarrow> Inl IndexError
                  | w # ws \<Rightarrow>
                      let gpr2 = define_mains [w] gpr1 in
                      Inr \<lparr>file_list = fl @ [gpr2, adc], cli = cli0, spark = spark_mode,
                           gpr = gpr2, lab_list = lab0, main = Some w\<rparr>)
             | m # m' # ms \<Rightarrow> Inl (ProjectError ''More than one main found in project'')))"

section \<open>Packaging\<close>

text \<open>
  \<open>Project.zip\<close> writes one member per file with \<open>ZipFile.writestr(name, content)\<close> into
  an archive opened with \<open>ZIP_DEFLATED\<close>. Given a name and not a \<open>ZipInfo\<close>, \<open>writestr\<close>
  builds the member's \<open>ZipInfo\<close> from the name and the local time at which it is called:
  \<^item> the name is cut at its first NUL character;
  \<^item> a year before 1980 raises \<open>ValueError\<close>;
  \<^item> \<open>filename[-1]\<close> of an empty name raises \<open>IndexError\<close>;
  \<^item> the header stores the time as two 16-bit fields,
    \<open>(year - 1980) << 9 | month << 5 | day\<close> and
    \<open>hour << 11 | minute << 5 | second // 2\<close>, and the length of the encoded name as a
    third; \<open>struct.pack\<close> raises when one of them does not fit.
  The archive is modelled by the sequence of its members, each with what the byte stream
  stores for it that is not a function of the rest: name, the two time fields, method
  and data. The clock gives the local time (year, month, day, hour, minute, second)
  read by the i-th call.
\<close>

datatype compression = ZIP_STORED | ZIP_DEFLATED

type_synonym localtime = "nat \<times> nat \<times> nat \<times> nat \<times> nat \<times> nat"

record zip_member =
  filename :: string
  dosdate :: nat
  dostime :: nat
  compress_type :: compression
  member_data :: string

definition zip_filename :: "string \<Rightarrow> string" where
  "zip_filename n = takeWhile (\<lambda>c. c \<noteq> CHR 0x00) n"

text \<open>The length of the name as the header holds it: ASCII when it can be, UTF-8
  otherwise, where a code point from 128 to 255 takes two bytes.\<close>

definition encoded_length :: "string \<Rightarrow> nat" where
  "encoded_length n = length n + length (filter (\<lambda>c. 128 \<le> (of_char c :: nat)) n)"

definition dos_date :: "localtime \<Rightarrow> nat" where
  "dos_date dt = (case dt of (y, mo, d, h, mi, s) \<Rightarrow> push_bit 9 (y - 1980) OR push_bit 5 mo OR d)"

definition dos_time :: "localtime \<Rightarrow> nat" where
  "dos_time dt = (case dt of (y, mo, d, h, mi, s) \<Rightarrow> push_bit 11 h OR push_bit 5 mi OR (s div 2))"

definition writestr :: "compression \<Rightarrow> localtime \<Rightarrow> string \<Rightarrow> string \<Rightarrow> error + zip_member" where
  "writestr ct now arcname data =
     (if fst now < 1980 then Inl (ValueError ''ZIP does not support timestamps before 1980'')
      else if zip_filename arcname = [] then Inl IndexError
      else if 65535 < dos_time now \<or> 65535 < dos_date now
                \<or> 65535 < encoded_length (zip_filename arcname) then Inl StructError
      else Inr \<lparr>filename = zip_filename arcname, dosdate = dos_date now, dostime = dos_time now,
                compress_type = ct, member_data = data\<rparr>)"

text \<open>The loop of \<open>zip\<close>; a write that raises ends it, and \<open>zip\<close> returns nothing.\<close>

fun zip_loop :: "(nat \<Rightarrow> localtime) \<Rightarrow> nat \<Rightarrow> File list \<Rightarrow> error + zip_member list" where
  "zip_loop clock i [] = Inr []"
| "zip_loop clock i (f # fs) =
     (case writestr ZIP_DEFLATED (clock i) (get_name f) (get_content f) of
        Inl err \<Rightarrow> Inl err
      | Inr z \<Rightarrow>
          (case zip_loop clock (Suc i) fs of
             Inl err \<Rightarrow> Inl err
           | Inr zs \<Rightarrow> Inr (z # zs)))"

definition zip_project :: "(nat \<Rightarrow> localtime) \<Rightarrow> 'a project_scheme \<Rightarrow> error + zip_member list" where
  "zip_project clock p = zip_loop clock 0 (file_list p)"

text \<open>
  The inputs on which no write raises: a local time as a clock gives it, with a year that
  the ZIP format holds, and a name that is not empty once cut and whose encoding fits the
  header. \<open>stamped\<close> is the list of members written then.
\<close>

definition localtime_ok :: "localtime \<Rightarrow> bool" where
  "localtime_ok dt =
     (case dt of (y, mo, d, h, mi, s) \<Rightarrow>
        1980 \<le> y \<and> y \<le> 2107 \<and> mo \<le> 12 \<and> d \<le> 31 \<and> h \<le> 23 \<and> mi \<le> 59 \<and> s \<le> 61)"

definition zip_nameable :: "string \<Rightarrow> bool" where
  "zip_nameable n = (zip_filename n \<noteq> [] \<and> encoded_length (zip_filename n) \<le> 65535)"

fun stamped :: "(nat \<Rightarrow> localtime) \<Rightarrow> nat \<Rightarrow> File list \<Rightarrow> zip_member list" where
  "stamped clock i [] = []"
| "stamped clock i (f # fs) =
     \<lparr>filename = zip_filename (get_name f), dosdate = dos_date (clock i),
      dostime = dos_time (clock i), compress_type = ZIP_DEFLATED,
      member_data = get_content f\<rparr> # stamped clock (Suc i) fs"

section \<open>Paths\<close>

text \<open>\<open>os.path.join\<close> of two POSIX paths, \<open>os.path.basename\<close> and \<open>os.path.normpath\<close>.\<close>

definition os_path_join :: "string \<Rightarrow> string \<Rightarrow> string" where
  "os_path_join a b =
     (if take 1 b = ''/'' then b
      else if a = [] \<or> last a = CHR ''/'' then a @ b
      else a @ ''/'' @ b)"

definition os_path_basename :: "string \<Rightarrow> string" where
  "os_path_basename p = rev (takeWhile (\<lambda>c. c \<noteq> CHR ''/'') (rev p))"

fun norm_comps :: "bool \<Rightarrow> string list \<Rightarrow> string list \<Rightarrow> string list" where
  "norm_comps initial [] new_comps = new_comps"
| "norm_comps initial (c # comps) new_comps =
     (if c = [] \<or> c = ''.'' then norm_comps initial comps new_comps
      else if c \<noteq> ''..'' \<or> (\<not> initial \<and> new_comps = [])
                \<or> (new_comps \<noteq> [] \<and> last new_comps = ''..'')
        then norm_comps initial comps (new_comps @ [c])
      else if new_comps \<noteq> [] then norm_comps initial comps (butlast new_comps)
      else norm_comps initial comps new_comps)"

definition os_path_normpath :: "string \<Rightarrow> string" where
  "os_path_normpath path =
     (if path = [] then ''.''
      else
        let initial_slashes =
              (if take 1 path = ''/''
               then (if take 2 path = ''//'' \<and> take 3 path \<noteq> ''///'' then 2 else 1)
               else (0::nat));
            body = join ''/'' (norm_comps (initial_slashes \<noteq> 0) (split_char (CHR ''/'') path) []);
            res = replicate initial_slashes (CHR ''/'') @ body
        in if res = [] then ''.'' else res)"

definition TEMP_WORKSPACE_BASEDIR :: string where
  "TEMP_WORKSPACE_BASEDIR = os_path_join (os_path_join ''/'' ''workspace'') ''sessions''"

section \<open>The execution context, the progress channel and the local disk\<close>

text \<open>
  The container and the reporter are collaborators outside the module. The model keeps
  what the module does to them: the calls made on the container and the events sent
  to the reporter, both oldest first, and the directories that exist, local and remote.
  A command's exit code, output and error text are whatever the container answers, which
  may depend on every call made before; \<open>mkdtemp\<close> picks a name given the existing
  directories.

  Modelled from the spec: the container's \<open>mkdir\<close>, \<open>push_files\<close> and \<open>rmdir\<close>, which are
  not among the sources. \<open>mkdir\<close> creates the remote directory; \<open>mkdir\<close> and \<open>push_files\<close>
  may fail, as the staging of a workspace may fail part of the way; \<open>rmdir\<close> removes the
  remote directory, and its absence is not an error. A command execution that raises is
  outside the model.
\<close>

datatype call =
    Mkdir string
  | PushFiles "File list" string
  | Rmdir string
  | Execute "string list"
  | ExecuteNoenv "string list"

datatype event =
    Console "string option" "string list"
  | Stderr string
  | LabReport bool "lab list"

record world =
  calls :: "call list"
  events :: "event list"
  local_dirs :: "string list"
  remote_dirs :: "string list"

record runtime =
  respond :: "call list \<Rightarrow> string list \<Rightarrow> int \<times> string \<times> string"
  mkdtemp :: "string list \<Rightarrow> string"
  mkdir_raises :: "call list \<Rightarrow> string \<Rightarrow> bool"
  push_raises :: "call list \<Rightarrow> File list \<Rightarrow> string \<Rightarrow> bool"

section \<open>RemoteProject\<close>

record remote_project = project +
  task_id :: string
  local_tempd :: string
  remote_tempd :: string

text \<open>
  What \<open>__del__\<close> reads of the object it is called on: the attributes \<open>local_tempd\<close> and
  \<open>remote_tempd\<close>. The constructor assigns both, one right after the other, once the
  Project constructor has returned; until then neither exists.
\<close>

datatype tempd_attrs = Unassigned | Assigned string string

text \<open>
  \<open>RemoteProject.__init__\<close>: the Project constructor first, then the staging. The result
  is what the caller gets (the object, or the exception), the two attributes as the
  constructor left them on the object, and the world.
\<close>

definition remote_construct ::
  "env \<Rightarrow> runtime \<Rightarrow> world \<Rightarrow> string \<Rightarrow> upload list \<Rightarrow> bool
     \<Rightarrow> (error + remote_project) \<times> tempd_attrs \<times> world" where
  "remote_construct e r w tid files spark_mode =
     (case project_init e files spark_mode of
        Inl err \<Rightarrow> (Inl err, Unassigned, w)
      | Inr p \<Rightarrow>
          let l = mkdtemp r (local_dirs w);
              tmp_name = os_path_basename (os_path_normpath l);
              rt = os_path_join TEMP_WORKSPACE_BASEDIR tmp_name;
              w1 = w\<lparr>local_dirs := local_dirs w @ [l]\<rparr>
          in if mkdir_raises r (calls w1) rt
             then (Inl ContainerError, Assigned l rt, w1\<lparr>calls := calls w1 @ [Mkdir rt]\<rparr>)
             else
               let w2 = w1\<lparr>calls := calls w1 @ [Mkdir rt],
                          remote_dirs := remote_dirs w1 @ [rt]\<rparr>;
                   w3 = w2\<lparr>calls := calls w2 @ [PushFiles (file_list p) rt]\<rparr>
               in if push_raises r (calls w2) (file_list p) rt
                  then (Inl ContainerError, Assigned l rt, w3)
                  else (Inr \<lparr>file_list = file_list p, cli = cli p, spark = spark p,
                            gpr = gpr p, lab_list = lab_list p, main = main p,
                            task_id = tid, local_tempd = l, remote_tempd = rt\<rparr>,
                        Assigned l rt, w3))"

definition remote_init ::
  "env \<Rightarrow> runtime \<Rightarrow> world \<Rightarrow> string \<Rightarrow> upload list \<Rightarrow> bool
     \<Rightarrow> (error + remote_project) \<times> world" where
  "remote_init e r w tid files spark_mode =
     (case remote_construct e r w tid files spark_mode of (res, attrs, w') \<Rightarrow> (res, w'))"

text \<open>
  \<open>RemoteProject.__del__\<close>. Reading \<open>self.local_tempd\<close> when it was never assigned
  raises \<open>AttributeError\<close>; \<open>shutil.rmtree\<close> of a directory that does not exist raises
  \<open>FileNotFoundError\<close>; in both cases the statements after it are not reached.
\<close>

fun remote_del :: "world \<Rightarrow> tempd_attrs \<Rightarrow> (error + unit) \<times> world" where
  "remote_del w Unassigned = (Inl (AttributeError ''local_tempd''), w)"
| "remote_del w (Assigned l rt) =
     (if l \<in> set (local_dirs w)
      then (Inr (), w\<lparr>local_dirs := removeAll l (local_dirs w),
                       remote_dirs := removeAll rt (remote_dirs w),
                       calls := calls w @ [Rmdir rt]\<rparr>)
      else (Inl (FileNotFoundError l), w))"

text \<open>The world after \<open>__del__\<close> has been invoked a number of times on one object,
  whatever each invocation returned.\<close>

fun teardowns :: "nat \<Rightarrow> world \<Rightarrow> tempd_attrs \<Rightarrow> world" where
  "teardowns 0 w attrs = w"
| "teardowns (Suc n) w attrs = teardowns n (snd (remote_del w attrs)) attrs"

text \<open>\<open>not x\<close> for a value that is \<open>None\<close>, a string or a list.\<close>

definition py_not :: "'a list option \<Rightarrow> bool" where
  "py_not x = (case x of None \<Rightarrow> True | Some xs \<Rightarrow> xs = [])"

text \<open>The argument resolution at the head of \<open>run\<close>.\<close>

definition effective_cli :: "string list option \<Rightarrow> string list option \<Rightarrow> string list" where
  "effective_cli cli_arg self_cli =
     (if py_not cli_arg
      then (if py_not self_cli then [] else (case self_cli of Some c \<Rightarrow> c | None \<Rightarrow> []))
      else (case cli_arg of Some c \<Rightarrow> c | None \<Rightarrow> []))"

definition run_line :: "string \<Rightarrow> string \<Rightarrow> string list \<Rightarrow> string list" where
  "run_line rtd m cli_args =
     (let exe = os_path_join rtd m;
          echo_line = [CHR 0x60] @ ''echo '' @ join '' '' cli_args @ [CHR 0x60]
      in [''sudo'', ''-u'', ''unprivileged'', ''timeout'', ''10s'',
          ''bash'', ''-c'',
          ''LD_PRELOAD=/preloader.so '' @ exe @ '' '' @ echo_line])"

text \<open>\<open>RemoteProject.run\<close>.\<close>

definition run ::
  "runtime \<Rightarrow> world \<Rightarrow> remote_project \<Rightarrow> string option \<Rightarrow> string list option
     \<Rightarrow> (error + int \<times> string) \<times> world" where
  "run r w rp lab_ref cli_arg =
     (if py_not (main rp) then (Inl (RunError ''Cannot run program without main''), w)
      else case main rp of
        None \<Rightarrow> (Inl (RunError ''Cannot run program without main''), w)
      | Some m \<Rightarrow>
          let cli_args = effective_cli cli_arg (cli rp);
              w1 = w\<lparr>events := events w @ [Console lab_ref [''./'' @ m, join '' '' cli_args]]\<rparr>;
              line = run_line (remote_tempd rp) m cli_args
          in case respond r (calls w1) line of
               (code, out, err) \<Rightarrow>
                 (Inr (code, out), w1\<lparr>calls := calls w1 @ [ExecuteNoenv line]\<rparr>))"

text \<open>
  Modelled from the spec: \<open>check_actual\<close> and \<open>get_results\<close> of \<open>lab.py\<close> (not among the
  sources). \<open>check_actual\<close> records the actual output and exit code on the case and
  answers whether the actual output is exactly the expected one; the results are the
  cases with what was recorded on them.
\<close>

definition check_actual :: "lab \<Rightarrow> string \<Rightarrow> int \<Rightarrow> lab \<times> bool" where
  "check_actual l out code =
     (l\<lparr>actual_output := Some out, actual_exit_code := Some code\<rparr>, out = expected_output l)"

definition get_results :: "lab list \<Rightarrow> lab list" where
  "get_results ll = ll"

text \<open>The truth value of the test-case list: an object is true unless its class defines
  a length and the length is zero.\<close>

definition lab_list_truthy :: "env \<Rightarrow> lab list \<Rightarrow> bool" where
  "lab_list_truthy e ll = (if lab_list_sized e then ll \<noteq> [] else True)"

text \<open>The loop of \<open>submit\<close>. The cases already run (with their recorded results) and
  \<open>successes\<close> are accumulated in order; a run that raises ends the loop.\<close>

fun submit_loop ::
  "runtime \<Rightarrow> remote_project \<Rightarrow> lab list \<Rightarrow> lab list \<Rightarrow> bool list \<Rightarrow> world
     \<Rightarrow> (error + lab list \<times> bool list) \<times> world" where
  "submit_loop r rp [] seen successes w = (Inr (seen, successes), w)"
| "submit_loop r rp (l # ls) seen successes w =
     (case run r w rp (Some (get_key l)) (Some (get_input l)) of
        (Inl err, w') \<Rightarrow> (Inl err, w')
      | (Inr (code, out), w') \<Rightarrow>
          (case check_actual l out code of
             (l', ok) \<Rightarrow> submit_loop r rp ls (seen @ [l']) (successes @ [ok]) w'))"

text \<open>\<open>RemoteProject.submit\<close>. Reading \<open>self.lab_list\<close> when no test-specification file
  was uploaded raises \<open>AttributeError\<close>.\<close>

definition submit ::
  "env \<Rightarrow> runtime \<Rightarrow> world \<Rightarrow> remote_project \<Rightarrow> (error + remote_project) \<times> world" where
  "submit e r w rp =
     (if py_not (main rp) then (Inl (SubmitError ''Cannot run program without main''), w)
      else case lab_list rp of
        None \<Rightarrow> (Inl (AttributeError ''lab_list''), w)
      | Some ll \<Rightarrow>
          if \<not> lab_list_truthy e ll then (Inl (SubmitError ''No lab io sent with project''), w)
          else (case submit_loop r rp ll [] [] w of
                 (Inl err, w') \<Rightarrow> (Inl err, w')
               | (Inr (ll', successes), w') \<Rightarrow>
                   (Inr (rp\<lparr>lab_list := Some ll'\<rparr>),
                    w'\<lparr>events := events w' @ [LabReport (list_all (\<lambda>b. b) successes) (get_results ll')]\<rparr>)))"

section \<open>What the specification says, for comparison with the code\<close>

text \<open>A basename with its extension stripped: the name up to its last dot, or the whole
  name when it has no dot.\<close>

definition strip_extension :: "string \<Rightarrow> string" where
  "strip_extension n =
     (if CHR ''.'' \<in> set n then rev (tl (dropWhile (\<lambda>c. c \<noteq> CHR ''.'') (rev n))) else n)"

text \<open>The argument resolution in the specification's words: the explicit argument if
  one is supplied, else the Project's own arguments, else none.\<close>

definition spec_effective_cli :: "string list option \<Rightarrow> string list option \<Rightarrow> string list" where
  "spec_effective_cli cli_arg self_cli =
     (case cli_arg of
        Some c \<Rightarrow> c
      | None \<Rightarrow> (case self_cli of Some c \<Rightarrow> c | None \<Rightarrow> []))"

text \<open>An argument list whose members are non-empty and free of spaces.\<close>

definition plain_args :: "string list \<Rightarrow> bool" where
  "plain_args xs = list_all (\<lambda>a. a \<noteq> [] \<and> CHR '' '' \<notin> set a) xs"

text \<open>
  Grading in the specification's words: the cases are run one after the other in parse
  order, each with its own input under its own key, and each gets the output and exit
  code of its run recorded. \<open>case_line\<close> is the command of one case, \<open>case_console\<close> its
  console event, \<open>spec_graded\<close> the cases with their recorded results given the calls made
  before, and \<open>passed\<close> the oracle read back from a graded case.
\<close>

definition case_line :: "remote_project \<Rightarrow> string \<Rightarrow> lab \<Rightarrow> string list" where
  "case_line rp m l = run_line (remote_tempd rp) m (effective_cli (Some (get_input l)) (cli rp))"

definition case_console :: "remote_project \<Rightarrow> string \<Rightarrow> lab \<Rightarrow> event" where
  "case_console rp m l =
     Console (Some (get_key l)) [''./'' @ m, join '' '' (effective_cli (Some (get_input l)) (cli rp))]"

fun spec_graded :: "runtime \<Rightarrow> remote_project \<Rightarrow> string \<Rightarrow> call list \<Rightarrow> lab list \<Rightarrow> lab list" where
  "spec_graded r rp m hist [] = []"
| "spec_graded r rp m hist (l # ls) =
     (case respond r hist (case_line rp m l) of
        (code, out, err) \<Rightarrow>
          l\<lparr>actual_output := Some out, actual_exit_code := Some code\<rparr>
            # spec_graded r rp m (hist @ [ExecuteNoenv (case_line rp m l)]) ls)"

definition passed :: "lab \<Rightarrow> bool" where
  "passed l = (actual_output l = Some (expected_output l))"

text \<open>A member of the archive without its time stamp.\<close>

definition untimed :: "zip_member \<Rightarrow> string \<times> compression \<times> string" where
  "untimed z = (filename z, compress_type z, member_data z)"

section \<open>Sample inputs\<close>

definition ends_with :: "string \<Rightarrow> string \<Rightarrow> bool" where
  "ends_with suf s = (drop (length s - length suf) s = suf)"

definition sample_parse :: "string \<Rightarrow> lab list" where
  "sample_parse c =
     concat (map (\<lambda>ln. case split_ws ln of
                          k # x # xs \<Rightarrow>
                            [\<lparr>get_key = k, get_input = butlast (x # xs),
                              expected_output = last (x # xs),
                              actual_output = None, actual_exit_code = None\<rparr>]
                        | _ \<Rightarrow> [])
                 (split_char (CHR ''\<newline>'') c))"

text \<open>A language heuristic by file suffix, an entry-point signature by the first word
  of the content, one test case per line (key, input words, expected output).\<close>

definition sample_env :: env where
  "sample_env =
     \<lparr>template_content = ''project Main is end Main;'',
      detect_language = (\<lambda>n c. if ends_with ''.adb'' n then ''Ada'' else []),
      is_main = (\<lambda>f. take 9 (get_content f) = ''procedure''),
      parse_lab_io = sample_parse,
      lab_list_sized = False\<rparr>"

text \<open>A container whose programs print one \<open>x\<close> per call made before and exit with 0.\<close>

definition sample_runtime :: runtime where
  "sample_runtime =
     \<lparr>respond = (\<lambda>hist line. (0, replicate (length hist) (CHR ''x''), [])),
      mkdtemp = (\<lambda>dirs. ''/tmp/tmp'' @ replicate (length dirs) (CHR ''a'')),
      mkdir_raises = (\<lambda>hist path. False),
      push_raises = (\<lambda>hist fl path. False)\<rparr>"

text \<open>The same container, except that pushing the files fails.\<close>

definition failing_runtime :: runtime where
  "failing_runtime = sample_runtime\<lparr>push_raises := (\<lambda>hist fl path. True)\<rparr>"

definition sample_world :: world where
  "sample_world = \<lparr>calls = [], events = [], local_dirs = [], remote_dirs = []\<rparr>"

definition main_adb :: upload where
  "main_adb = \<lparr>basename = ''main.adb'', contents = ''procedure Main is begin null; end Main;''\<rparr>"

definition dotted_adb :: upload where
  "dotted_adb = \<lparr>basename = ''my.main.adb'', contents = ''procedure Main is begin null; end Main;''\<rparr>"

definition pkg_adb :: upload where
  "pkg_adb = \<lparr>basename = ''pkg.adb'', contents = ''package body Pkg is end Pkg;''\<rparr>"

definition cli_txt :: upload where
  "cli_txt = \<lparr>basename = ''cli.txt'', contents = ''a b  c''\<rparr>"

definition lab_io_txt :: upload where
  "lab_io_txt = \<lparr>basename = ''lab_io.txt'', contents = ''t1 a b xx\<newline>t2 c xxy''\<rparr>"

definition main_file :: File where
  "main_file =
     \<lparr>get_name = ''main.adb'', get_content = ''procedure Main is begin null; end Main;'',
      language = ''Ada'', languages_decl = [], mains_decl = []\<rparr>"

definition pkg_file :: File where
  "pkg_file =
     \<lparr>get_name = ''pkg.adb'', get_content = ''package body Pkg is end Pkg;'',
      language = ''Ada'', languages_decl = [], mains_decl = []\<rparr>"

definition sample_gpr :: File where
  "sample_gpr =
     \<lparr>get_name = ''main.gpr'', get_content = ''project Main is end Main;'',
      language = [], languages_decl = [''Ada''], mains_decl = [''main'']\<rparr>"

definition sample_adc :: File where
  "sample_adc =
     \<lparr>get_name = ''main.adc'', get_content = COMMON_ADC,
      language = [], languages_decl = [], mains_decl = []\<rparr>"

definition sample_labs :: "lab list" where
  "sample_labs =
     [\<lparr>get_key = ''t1'', get_input = [''a'', ''b''], expected_output = ''xx'',
       actual_output = None, actual_exit_code = None\<rparr>,
      \<lparr>get_key = ''t2'', get_input = [''c''], expected_output = ''xxy'',
       actual_output = None, actual_exit_code = None\<rparr>]"

text \<open>The project staged from \<open>main.adb\<close>, \<open>cli.txt\<close> and \<open>lab_io.txt\<close>, the same without
  the test specification, and a library project with no entry point.\<close>

definition sample_rp :: remote_project where
  "sample_rp =
     \<lparr>file_list = [main_file, sample_gpr, sample_adc], cli = Some [''a'', ''b'', ''c''],
      spark = False, gpr = sample_gpr, lab_list = Some sample_labs, main = Some ''main'',
      task_id = ''task'', local_tempd = ''/tmp/tmp'',
      remote_tempd = ''/workspace/sessions/tmp''\<rparr>"

definition nolab_rp :: remote_project where
  "nolab_rp =
     \<lparr>file_list = [main_file, sample_gpr, sample_adc], cli = None,
      spark = False, gpr = sample_gpr, lab_list = None, main = Some ''main'',
      task_id = ''task'', local_tempd = ''/tmp/tmp'',
      remote_tempd = ''/workspace/sessions/tmp''\<rparr>"

definition library_rp :: remote_project where
  "library_rp =
     \<lparr>file_list = [pkg_file, sample_gpr\<lparr>mains_decl := []\<rparr>, sample_adc], cli = None,
      spark = False, gpr = sample_gpr\<lparr>mains_decl := []\<rparr>, lab_list = None, main = None,
      task_id = ''task'', local_tempd = ''/tmp/tmp'',
      remote_tempd = ''/workspace/sessions/tmp''\<rparr>"

definition staged_world :: "remote_project \<Rightarrow> world" where
  "staged_world rp =
     \<lparr>calls = [Mkdir (remote_tempd rp), PushFiles (file_list rp) (remote_tempd rp)],
      events = [], local_dirs = [local_tempd rp], remote_dirs = [remote_tempd rp]\<rparr>"

text \<open>Three clocks: noon, two seconds after noon, and one second after noon.\<close>

definition clock_a :: "nat \<Rightarrow> localtime" where
  "clock_a i = (2024, 1, 1, 12, 0, 0)"

definition clock_b :: "nat \<Rightarrow> localtime" where
  "clock_b i = (2024, 1, 1, 12, 0, 2)"

definition clock_c :: "nat \<Rightarrow> localtime" where
  "clock_c i = (2024, 1, 1, 12, 0, 1)"

section \<open>Facts about the constructor\<close>

lemma split_char_first: "\<exists>ws. split_char sep s = takeWhile (\<lambda>c. c \<noteq> sep) s # ws"
  by (induction s) auto

lemma project_init_many:
  assumes "filter (is_main e) (user_files e files) = f # g # fs"
  shows "project_init e files sm = Inl (ProjectError ''More than one main found in project'')"
  using assms
  by (auto simp: project_init_def user_files_def find_mains_def Let_def
           split: prod.splits list.splits)

lemma project_init_none:
  assumes "filter (is_main e) (user_files e files) = []"
  shows "\<exists>p. project_init e files sm = Inr p \<and> main p = None \<and>
            file_list p = user_files e files @ [gpr p, new_file e ''main.adc'' (adc_content sm)]"
  using assms
  by (auto simp: project_init_def user_files_def find_mains_def Let_def
           split: prod.splits list.splits)

lemma project_init_one:
  assumes "filter (is_main e) (user_files e files) = [f]"
  shows "\<exists>p. project_init e files sm = Inr p \<and>
            main p = Some (takeWhile (\<lambda>c. c \<noteq> CHR ''.'') (get_name f)) \<and>
            mains_decl (gpr p) = [takeWhile (\<lambda>c. c \<noteq> CHR ''.'') (get_name f)] \<and>
            file_list p = user_files e files @ [gpr p, new_file e ''main.adc'' (adc_content sm)]"
proof -
  obtain ws where ws:
    "split_char (CHR ''.'') (get_name f) = takeWhile (\<lambda>c. c \<noteq> CHR ''.'') (get_name f) # ws"
    using split_char_first by blast
  show ?thesis
    using assms ws
    by (auto simp: project_init_def user_files_def find_mains_def define_mains_def Let_def
             split: prod.splits list.splits)
qed

lemma project_init_file_list:
  assumes "project_init e files sm = Inr p"
  shows "file_list p = user_files e files @ [gpr p, new_file e ''main.adc'' (adc_content sm)]"
proof (cases "filter (is_main e) (user_files e files)")
  case Nil
  then show ?thesis using project_init_none[of e files sm] assms by auto
next
  case (Cons f fs)
  note outer = Cons
  show ?thesis
  proof (cases fs)
    case Nil
    then show ?thesis using project_init_one[of e files f sm] outer assms by auto
  next
    case (Cons g gs)
    then show ?thesis using project_init_many[of e files f g gs sm] outer assms by auto
  qed
qed

lemma user_files_main: "user_files sample_env [main_adb, pkg_adb] = [main_file, pkg_file]"
  by (simp add: user_files_def sample_env_def main_adb_def pkg_adb_def main_file_def
        pkg_file_def new_file_def CLI_FILE_def LAB_IO_FILE_def ends_with_def)

lemma filter_main: "filter (is_main sample_env) [main_file, pkg_file] = [main_file]"
  by (simp add: sample_env_def main_file_def pkg_file_def)

section \<open>Entry points and assembly\<close>

text \<open>
  C2. Assembly fails exactly when two or more of the user's files match the entry-point
  signature, and it then fails with the module's ProjectError "More than one main found
  in project" (the error the specification calls AssemblyError). With no such file it
  succeeds and the entry point is absent; with exactly one it succeeds and the entry
  point is taken from that file's name (its first dot-separated field).
\<close>

theorem assembly_entry_points:
  "(isl (project_init e files sm) \<longleftrightarrow> 2 \<le> length (filter (is_main e) (user_files e files))) \<and>
   (2 \<le> length (filter (is_main e) (user_files e files)) \<longrightarrow>
      project_init e files sm = Inl (ProjectError ''More than one main found in project'')) \<and>
   (filter (is_main e) (user_files e files) = [] \<longrightarrow>
      (\<exists>p. project_init e files sm = Inr p \<and> main p = None)) \<and>
   (\<forall>f. filter (is_main e) (user_files e files) = [f] \<longrightarrow>
      (\<exists>p. project_init e files sm = Inr p \<and>
           main p = Some (takeWhile (\<lambda>c. c \<noteq> CHR ''.'') (get_name f))))"
proof (cases "filter (is_main e) (user_files e files)")
  case Nil
  then show ?thesis using project_init_none[of e files sm] by auto
next
  case (Cons f fs)
  note outer = Cons
  show ?thesis
  proof (cases fs)
    case Nil
    then show ?thesis using project_init_one[of e files f sm] outer by auto
  next
    case (Cons g gs)
    then show ?thesis using project_init_many[of e files f g gs sm] outer by auto
  qed
qed

theorem assembly_entry_points_witness:
  "filter (is_main sample_env) (user_files sample_env [pkg_adb]) = [] \<and>
   (\<exists>p. project_init sample_env [pkg_adb] False = Inr p \<and> main p = None) \<and>
   filter (is_main sample_env) (user_files sample_env [main_adb, pkg_adb]) = [main_file] \<and>
   (\<exists>p. project_init sample_env [main_adb, pkg_adb] False = Inr p \<and> main p = Some ''main'') \<and>
   2 \<le> length (filter (is_main sample_env) (user_files sample_env [main_adb, pkg_adb, main_adb])) \<and>
   project_init sample_env [main_adb, pkg_adb, main_adb] False =
     Inl (ProjectError ''More than one main found in project'')"
proof -
  have zero: "filter (is_main sample_env) (user_files sample_env [pkg_adb]) = []"
    by (simp add: user_files_def sample_env_def pkg_adb_def new_file_def
          CLI_FILE_def LAB_IO_FILE_def)
  have one: "filter (is_main sample_env) (user_files sample_env [main_adb, pkg_adb]) = [main_file]"
    by (simp only: user_files_main filter_main)
  have two:
    "2 \<le> length (filter (is_main sample_env) (user_files sample_env [main_adb, pkg_adb, main_adb]))"
    by (simp add: user_files_def sample_env_def main_adb_def pkg_adb_def new_file_def
          CLI_FILE_def LAB_IO_FILE_def)
  have nm: "takeWhile (\<lambda>c. c \<noteq> CHR ''.'') (get_name main_file) = ''main''"
    by (simp add: main_file_def)
  from assembly_entry_points[of sample_env "[pkg_adb]" False] zero
  have z: "\<exists>p. project_init sample_env [pkg_adb] False = Inr p \<and> main p = None"
    by blast
  from assembly_entry_points[of sample_env "[main_adb, pkg_adb]" False] one nm
  have a: "\<exists>p. project_init sample_env [main_adb, pkg_adb] False = Inr p \<and> main p = Some ''main''"
    by auto
  from assembly_entry_points[of sample_env "[main_adb, pkg_adb, main_adb]" False] two
  have b: "project_init sample_env [main_adb, pkg_adb, main_adb] False =
     Inl (ProjectError ''More than one main found in project'')"
    by blast
  from zero z one a two b show ?thesis by blast
qed

section \<open>The restrictions file\<close>

text \<open>
  C3. For every assembled Project the generated restrictions file is the last file of the
  file list, it is named \<open>main.adc\<close>, and its content is exactly the baseline block
  \<open>COMMON_ADC\<close> when the verification mode is off, and exactly \<open>COMMON_ADC\<close>, one newline
  (a blank line, since the baseline block ends its last line) and the verification block
  \<open>SPARK_ADC\<close> when it is on.
\<close>

theorem restrictions_file_content:
  "project_init e files sm = Inr p \<Longrightarrow>
     file_list p \<noteq> [] \<and>
     get_name (last (file_list p)) = ''main.adc'' \<and>
     get_content (last (file_list p)) =
       (if sm then COMMON_ADC @ ''\<newline>'' @ SPARK_ADC else COMMON_ADC)"
  using project_init_file_list[of e files sm p]
  by (simp add: new_file_def adc_content_def)

theorem restrictions_file_content_witness:
  "\<exists>p. project_init sample_env [main_adb, pkg_adb] True = Inr p \<and>
       get_name (last (file_list p)) = ''main.adc'' \<and>
       get_content (last (file_list p)) = COMMON_ADC @ ''\<newline>'' @ SPARK_ADC"
proof -
  have "filter (is_main sample_env) (user_files sample_env [main_adb, pkg_adb]) = [main_file]"
    by (simp only: user_files_main filter_main)
  then obtain p where p: "project_init sample_env [main_adb, pkg_adb] True = Inr p"
    using project_init_one[of sample_env "[main_adb, pkg_adb]" main_file True] by blast
  from restrictions_file_content[OF p] p show ?thesis by auto
qed

section \<open>The entry point's name\<close>

lemma first_field_strip_extension:
  assumes "count_list n (CHR ''.'') \<le> 1"
  shows "takeWhile (\<lambda>c. c \<noteq> CHR ''.'') n = strip_extension n"
proof (cases "CHR ''.'' \<in> set n")
  case False
  then have "takeWhile (\<lambda>c. c \<noteq> CHR ''.'') n = n"
    by auto
  with False show ?thesis by (simp add: strip_extension_def)
next
  case True
  then obtain a b where n: "n = a @ CHR ''.'' # b" and a: "CHR ''.'' \<notin> set a"
    by (meson split_list_first)
  from assms n have "count_list b (CHR ''.'') = 0" by simp
  then have b: "CHR ''.'' \<notin> set b" by (simp add: count_list_0_iff)
  have tw: "takeWhile (\<lambda>c. c \<noteq> CHR ''.'') n = a"
    using a n by (auto simp: takeWhile_tail)
  have "dropWhile (\<lambda>c. c \<noteq> CHR ''.'') (rev n) = CHR ''.'' # rev a"
    using b n by (auto simp: dropWhile_append3)
  then have "strip_extension n = a"
    using True by (simp add: strip_extension_def)
  with tw show ?thesis by simp
qed

lemma user_files_dotted:
  "filter (is_main sample_env) (user_files sample_env [dotted_adb]) =
     [main_file\<lparr>get_name := ''my.main.adb''\<rparr>]"
  by (simp add: user_files_def sample_env_def dotted_adb_def main_file_def
        new_file_def CLI_FILE_def LAB_IO_FILE_def ends_with_def)

text \<open>
  C8, as amended. When exactly one file matches the entry-point signature, the entry
  point is the part of that file's name before its first dot, that name is the only entry
  of the mains declaration of the manifest, and the manifest is in the file list. For a
  name with at most one dot this is the name with its extension stripped.
\<close>

theorem entry_point_first_field:
  assumes "filter (is_main e) (user_files e files) = [f]"
  shows "\<exists>p. project_init e files sm = Inr p \<and>
            main p = Some (takeWhile (\<lambda>c. c \<noteq> CHR ''.'') (get_name f)) \<and>
            mains_decl (gpr p) = [takeWhile (\<lambda>c. c \<noteq> CHR ''.'') (get_name f)] \<and>
            gpr p \<in> set (file_list p) \<and>
            (count_list (get_name f) (CHR ''.'') \<le> 1 \<longrightarrow>
               main p = Some (strip_extension (get_name f)))"
proof -
  obtain p where p: "project_init e files sm = Inr p"
    and m: "main p = Some (takeWhile (\<lambda>c. c \<noteq> CHR ''.'') (get_name f))"
    and d: "mains_decl (gpr p) = [takeWhile (\<lambda>c. c \<noteq> CHR ''.'') (get_name f)]"
    and fl: "file_list p = user_files e files @ [gpr p, new_file e ''main.adc'' (adc_content sm)]"
    using project_init_one[OF assms, of sm] by blast
  from fl have "gpr p \<in> set (file_list p)" by simp
  with p m d first_field_strip_extension[of "get_name f"] show ?thesis by auto
qed

theorem entry_point_first_field_witness:
  "filter (is_main sample_env) (user_files sample_env [main_adb, pkg_adb]) = [main_file] \<and>
   count_list (get_name main_file) (CHR ''.'') \<le> 1 \<and>
   (\<exists>p. project_init sample_env [main_adb, pkg_adb] False = Inr p \<and>
        main p = Some ''main'' \<and> mains_decl (gpr p) = [''main''] \<and>
        gpr p \<in> set (file_list p) \<and>
        main p = Some (strip_extension ''main.adb''))"
proof -
  have one: "filter (is_main sample_env) (user_files sample_env [main_adb, pkg_adb]) = [main_file]"
    by (simp only: user_files_main filter_main)
  have cnt: "count_list (get_name main_file) (CHR ''.'') \<le> 1"
    by (simp add: main_file_def)
  have nm: "takeWhile (\<lambda>c. c \<noteq> CHR ''.'') (get_name main_file) = ''main''"
    "get_name main_file = ''main.adb''"
    by (simp_all add: main_file_def)
  from entry_point_first_field[OF one, of False] cnt nm
  have "\<exists>p. project_init sample_env [main_adb, pkg_adb] False = Inr p \<and>
        main p = Some ''main'' \<and> mains_decl (gpr p) = [''main''] \<and>
        gpr p \<in> set (file_list p) \<and>
        main p = Some (strip_extension ''main.adb'')"
    by auto
  with one cnt show ?thesis by blast
qed

text \<open>
  C8 as stated fails for a name with two dots: the only matching file is
  \<open>my.main.adb\<close>, the entry point is \<open>my\<close>, and the name without its extension is
  \<open>my.main\<close>.
\<close>

theorem entry_point_extension_counterexample:
  "filter (is_main sample_env) (user_files sample_env [dotted_adb]) =
     [main_file\<lparr>get_name := ''my.main.adb''\<rparr>] \<and>
   map_sum id main (project_init sample_env [dotted_adb] False) = Inr (Some ''my'') \<and>
   strip_extension ''my.main.adb'' = ''my.main''"
proof -
  have one: "filter (is_main sample_env) (user_files sample_env [dotted_adb]) =
     [main_file\<lparr>get_name := ''my.main.adb''\<rparr>]"
    by (rule user_files_dotted)
  obtain p where p: "project_init sample_env [dotted_adb] False = Inr p"
    and m: "main p = Some (takeWhile (\<lambda>c. c \<noteq> CHR ''.'') (get_name (main_file\<lparr>get_name := ''my.main.adb''\<rparr>)))"
    using project_init_one[OF one, of False] by blast
  have "map_sum id main (project_init sample_env [dotted_adb] False) = Inr (Some ''my'')"
    using p m by simp
  moreover have "strip_extension ''my.main.adb'' = ''my.main''"
    by (simp add: strip_extension_def)
  ultimately show ?thesis using one by blast
qed

section \<open>The sample projects are what staging returns\<close>

lemma sample_rp_staged:
  "remote_init sample_env sample_runtime sample_world ''task'' [main_adb, cli_txt, lab_io_txt] False
     = (Inr sample_rp, staged_world sample_rp)"
  by (simp add: remote_init_def remote_construct_def project_init_def sample_env_def sample_runtime_def
        sample_world_def main_adb_def cli_txt_def lab_io_txt_def sample_rp_def staged_world_def
        main_file_def sample_gpr_def sample_adc_def sample_labs_def sample_parse_def
        new_file_def insert_languages_def define_mains_def find_mains_def LabList_def
        project_languages_def adc_content_def gpr_name_def CLI_FILE_def LAB_IO_FILE_def
        ends_with_def split_ws_def py_isspace_def os_path_join_def os_path_basename_def
        os_path_normpath_def TEMP_WORKSPACE_BASEDIR_def Let_def)

lemma nolab_rp_staged:
  "remote_init sample_env sample_runtime sample_world ''task'' [main_adb] False
     = (Inr nolab_rp, staged_world nolab_rp)"
  by (simp add: remote_init_def remote_construct_def project_init_def sample_env_def sample_runtime_def
        sample_world_def main_adb_def nolab_rp_def staged_world_def
        main_file_def sample_gpr_def sample_adc_def
        new_file_def insert_languages_def define_mains_def find_mains_def
        project_languages_def adc_content_def gpr_name_def CLI_FILE_def LAB_IO_FILE_def
        ends_with_def os_path_join_def os_path_basename_def
        os_path_normpath_def TEMP_WORKSPACE_BASEDIR_def Let_def)

lemma library_rp_staged:
  "remote_init sample_env sample_runtime sample_world ''task'' [pkg_adb] False
     = (Inr library_rp, staged_world library_rp)"
  by (simp add: remote_init_def remote_construct_def project_init_def sample_env_def sample_runtime_def
        sample_world_def pkg_adb_def library_rp_def staged_world_def
        pkg_file_def sample_gpr_def sample_adc_def
        new_file_def insert_languages_def define_mains_def find_mains_def
        project_languages_def adc_content_def gpr_name_def CLI_FILE_def LAB_IO_FILE_def
        ends_with_def os_path_join_def os_path_basename_def
        os_path_normpath_def TEMP_WORKSPACE_BASEDIR_def Let_def)

section \<open>Running the entry point\<close>

lemma run_with_main:
  assumes "main rp = Some m" and "m \<noteq> []"
  shows "run r w rp lab_ref cli_arg =
     (Inr (fst (respond r (calls w) (run_line (remote_tempd rp) m (effective_cli cli_arg (cli rp)))),
           fst (snd (respond r (calls w) (run_line (remote_tempd rp) m (effective_cli cli_arg (cli rp)))))),
      w\<lparr>events := events w @ [Console lab_ref [''./'' @ m, join '' '' (effective_cli cli_arg (cli rp))]],
        calls := calls w @ [ExecuteNoenv (run_line (remote_tempd rp) m (effective_cli cli_arg (cli rp)))]\<rparr>)"
  using assms
  by (simp add: run_def py_not_def Let_def split: prod.splits)

text \<open>
  C9. When the entry point is absent, every run fails with RunError and leaves the world
  as it was: no call is made on the container and no event is sent to the reporter.
\<close>

theorem run_without_entry_point:
  "main rp = None \<Longrightarrow>
     run r w rp lab_ref cli_arg = (Inl (RunError ''Cannot run program without main''), w)"
  by (simp add: run_def py_not_def)

theorem run_without_entry_point_witness:
  "main library_rp = None \<and>
   run sample_runtime (staged_world library_rp) library_rp None (Some [''a'']) =
     (Inl (RunError ''Cannot run program without main''), staged_world library_rp)"
proof -
  have h: "main library_rp = None" by (simp add: library_rp_def)
  from run_without_entry_point[OF h, of sample_runtime "staged_world library_rp" None "Some [''a'']"] h
  show ?thesis by simp
qed

text \<open>
  C6, as amended. For a project with an entry point (a non-empty name, which is what the
  test \<open>not self.main\<close> lets through), the one command that a run issues is built from
  the explicit argument list when one is supplied and is not empty, otherwise from the
  project's stored arguments when there are any, otherwise from the empty list.
\<close>

theorem run_effective_arguments:
  assumes "main rp = Some m" and "m \<noteq> []"
  shows "calls (snd (run r w rp lab_ref cli_arg)) =
           calls w @ [ExecuteNoenv (run_line (remote_tempd rp) m
              (case cli_arg of
                 Some (x # xs) \<Rightarrow> x # xs
               | _ \<Rightarrow> (case cli rp of Some c \<Rightarrow> c | None \<Rightarrow> [])))] \<and>
         effective_cli cli_arg (cli rp) =
           (case cli_arg of
              Some (x # xs) \<Rightarrow> x # xs
            | _ \<Rightarrow> (case cli rp of Some c \<Rightarrow> c | None \<Rightarrow> []))"
proof -
  have eff: "effective_cli cli_arg (cli rp) =
           (case cli_arg of
              Some (x # xs) \<Rightarrow> x # xs
            | _ \<Rightarrow> (case cli rp of Some c \<Rightarrow> c | None \<Rightarrow> []))"
    by (simp add: effective_cli_def py_not_def split: option.splits list.splits)
  show ?thesis
    using run_with_main[OF assms, of r w lab_ref cli_arg] eff by simp
qed

theorem run_effective_arguments_witness:
  "main sample_rp = Some ''main'' \<and> ''main'' \<noteq> [] \<and>
   calls (snd (run sample_runtime (staged_world sample_rp) sample_rp None (Some [''x'', ''y'']))) =
     calls (staged_world sample_rp) @
       [ExecuteNoenv (run_line ''/workspace/sessions/tmp'' ''main'' [''x'', ''y''])] \<and>
   calls (snd (run sample_runtime (staged_world sample_rp) sample_rp None None)) =
     calls (staged_world sample_rp) @
       [ExecuteNoenv (run_line ''/workspace/sessions/tmp'' ''main'' [''a'', ''b'', ''c''])]"
proof -
  have h: "main sample_rp = Some ''main''" by (simp add: sample_rp_def)
  have n: "''main'' \<noteq> []" by simp
  have f: "remote_tempd sample_rp = ''/workspace/sessions/tmp''" "cli sample_rp = Some [''a'', ''b'', ''c'']"
    by (simp_all add: sample_rp_def)
  from run_effective_arguments[OF h n, of sample_runtime "staged_world sample_rp" None "Some [''x'', ''y'']"]
       run_effective_arguments[OF h n, of sample_runtime "staged_world sample_rp" None None] h f
  show ?thesis by simp
qed

text \<open>
  C6 as stated fails when the explicit argument list is supplied and empty: the
  specification's resolution gives the empty list, the run uses the project's stored
  arguments, and the two commands differ.
\<close>

theorem explicit_empty_arguments_counterexample:
  "main sample_rp = Some ''main'' \<and>
   spec_effective_cli (Some []) (cli sample_rp) = [] \<and>
   calls (snd (run sample_runtime (staged_world sample_rp) sample_rp None (Some []))) =
     calls (staged_world sample_rp) @
       [ExecuteNoenv (run_line ''/workspace/sessions/tmp'' ''main'' [''a'', ''b'', ''c''])] \<and>
   run_line ''/workspace/sessions/tmp'' ''main'' [''a'', ''b'', ''c''] \<noteq>
     run_line ''/workspace/sessions/tmp'' ''main'' []"
proof -
  have h: "main sample_rp = Some ''main''" by (simp add: sample_rp_def)
  have n: "''main'' \<noteq> []" by simp
  have f: "remote_tempd sample_rp = ''/workspace/sessions/tmp''" "cli sample_rp = Some [''a'', ''b'', ''c'']"
    by (simp_all add: sample_rp_def)
  have a: "spec_effective_cli (Some []) (cli sample_rp) = []"
    by (simp add: spec_effective_cli_def)
  have b: "calls (snd (run sample_runtime (staged_world sample_rp) sample_rp None (Some []))) =
     calls (staged_world sample_rp) @
       [ExecuteNoenv (run_line ''/workspace/sessions/tmp'' ''main'' [''a'', ''b'', ''c''])]"
    using run_with_main[OF h n, of sample_runtime "staged_world sample_rp" None "Some []"] f
    by (simp add: effective_cli_def py_not_def)
  have c: "run_line ''/workspace/sessions/tmp'' ''main'' [''a'', ''b'', ''c''] \<noteq>
     run_line ''/workspace/sessions/tmp'' ''main'' []"
    by (simp add: run_line_def os_path_join_def)
  from h a b c show ?thesis by blast
qed

section \<open>The command line of a run\<close>

lemma split_char_plain: "sep \<notin> set x \<Longrightarrow> split_char sep x = [x]"
  by (induction x) auto

lemma split_char_field:
  "sep \<notin> set x \<Longrightarrow> split_char sep (x @ sep # rest) = x # split_char sep rest"
  by (induction x) auto

lemma join_nonempty: "xs \<noteq> [] \<Longrightarrow> \<forall>x\<in>set xs. x \<noteq> [] \<Longrightarrow> join sep xs \<noteq> []"
  by (induction sep xs rule: join.induct) auto

lemma split_char_join:
  "xs \<noteq> [] \<Longrightarrow> \<forall>x\<in>set xs. sep \<notin> set x \<Longrightarrow> split_char sep (join [sep] xs) = xs"
proof (induction "[sep]" xs rule: join.induct)
  case 1
  then show ?case by simp
next
  case (2 x)
  then show ?case by (simp add: split_char_plain)
next
  case (3 x y ys)
  then show ?case by (simp add: split_char_field)
qed

lemma plain_args_iff: "plain_args xs \<longleftrightarrow> (\<forall>x\<in>set xs. x \<noteq> [] \<and> CHR '' '' \<notin> set x)"
  by (simp add: plain_args_def list_all_iff)

lemma join_plain_nonempty: "plain_args xs \<Longrightarrow> xs \<noteq> [] \<Longrightarrow> join sep xs \<noteq> []"
  using join_nonempty[of xs sep] by (simp add: plain_args_iff)

lemma split_join_plain:
  "plain_args xs \<Longrightarrow> xs \<noteq> [] \<Longrightarrow> split_char (CHR '' '') (join '' '' xs) = xs"
  using split_char_join[of xs "CHR '' ''"] by (simp add: plain_args_iff)

lemma join_plain_inj:
  assumes px: "plain_args xs" and py: "plain_args ys" and eq: "join '' '' xs = join '' '' ys"
  shows "xs = ys"
proof (cases "xs = []")
  case True
  have "ys = []"
  proof (rule ccontr)
    assume "ys \<noteq> []"
    then have "join '' '' ys \<noteq> []" using py by (rule join_plain_nonempty[rotated])
    moreover have "join '' '' xs = []" using True by simp
    ultimately show False using eq by metis
  qed
  with True show ?thesis by simp
next
  case False
  have ys: "ys \<noteq> []"
  proof
    assume "ys = []"
    then have "join '' '' ys = []" by simp
    moreover have "join '' '' xs \<noteq> []" using px False by (rule join_plain_nonempty)
    ultimately show False using eq by metis
  qed
  have "xs = split_char (CHR '' '') (join '' '' xs)"
    using px False by (rule split_join_plain[symmetric])
  also have "\<dots> = split_char (CHR '' '') (join '' '' ys)"
    by (rule arg_cong[OF eq])
  also have "\<dots> = ys"
    using py ys by (rule split_join_plain)
  finally show ?thesis .
qed

lemma run_line_plain_inj:
  assumes "plain_args xs" and "plain_args ys" and "run_line rt m xs = run_line rt m ys"
  shows "xs = ys"
proof -
  have "join '' '' xs = join '' '' ys"
    using assms(3) unfolding run_line_def Let_def by simp
  with assms(1,2) show ?thesis by (rule join_plain_inj)
qed

text \<open>
  C7, as amended. For a project with an entry point, the one command that a run issues
  is \<open>sudo -u unprivileged timeout 10s bash -c\<close> followed by one string:
  \<open>LD_PRELOAD=/preloader.so\<close>, the executable's path in the remote workspace, and a
  backquoted \<open>echo\<close> of the resolved arguments joined by single spaces, with no escaping.
  The command text determines the argument list among the lists whose members are
  non-empty and contain no space.
\<close>

theorem run_command_line:
  assumes "main rp = Some m" and "m \<noteq> []"
  shows "calls (snd (run r w rp lab_ref cli_arg)) =
           calls w @
           [ExecuteNoenv
              [''sudo'', ''-u'', ''unprivileged'', ''timeout'', ''10s'', ''bash'', ''-c'',
               ''LD_PRELOAD=/preloader.so '' @ os_path_join (remote_tempd rp) m @ '' '' @
                 [CHR 0x60] @ ''echo '' @ join '' '' (effective_cli cli_arg (cli rp)) @ [CHR 0x60]]] \<and>
         (\<forall>xs ys. plain_args xs \<and> plain_args ys \<and>
                  run_line (remote_tempd rp) m xs = run_line (remote_tempd rp) m ys
                  \<longrightarrow> xs = ys)"
proof -
  have a: "calls (snd (run r w rp lab_ref cli_arg)) =
          calls w @ [ExecuteNoenv (run_line (remote_tempd rp) m (effective_cli cli_arg (cli rp)))]"
    using run_with_main[OF assms, of r w lab_ref cli_arg] by simp
  have b: "\<forall>xs ys. plain_args xs \<and> plain_args ys \<and>
                  run_line (remote_tempd rp) m xs = run_line (remote_tempd rp) m ys
                  \<longrightarrow> xs = ys"
    using run_line_plain_inj by blast
  from a have "calls (snd (run r w rp lab_ref cli_arg)) =
           calls w @
           [ExecuteNoenv
              [''sudo'', ''-u'', ''unprivileged'', ''timeout'', ''10s'', ''bash'', ''-c'',
               ''LD_PRELOAD=/preloader.so '' @ os_path_join (remote_tempd rp) m @ '' '' @
                 [CHR 0x60] @ ''echo '' @ join '' '' (effective_cli cli_arg (cli rp)) @ [CHR 0x60]]]"
    by (simp add: run_line_def Let_def)
  with b show ?thesis by blast
qed

theorem run_command_line_witness:
  "main sample_rp = Some ''main'' \<and> ''main'' \<noteq> [] \<and>
   calls (snd (run sample_runtime (staged_world sample_rp) sample_rp None (Some [''x'', ''y'']))) =
     calls (staged_world sample_rp) @
       [ExecuteNoenv
          [''sudo'', ''-u'', ''unprivileged'', ''timeout'', ''10s'', ''bash'', ''-c'',
           ''LD_PRELOAD=/preloader.so /workspace/sessions/tmp/main '' @ [CHR 0x60] @ ''echo x y'' @ [CHR 0x60]]] \<and>
   plain_args [''x'', ''y''] \<and> plain_args [''x y''] = False"
proof -
  have h: "main sample_rp = Some ''main''" by (simp add: sample_rp_def)
  have n: "''main'' \<noteq> []" by simp
  have f: "remote_tempd sample_rp = ''/workspace/sessions/tmp''" "cli sample_rp = Some [''a'', ''b'', ''c'']"
    by (simp_all add: sample_rp_def)
  have p: "plain_args [''x'', ''y'']" "plain_args [''x y''] = False"
    by (simp_all add: plain_args_def)
  from run_command_line[OF h n, of sample_runtime "staged_world sample_rp" None "Some [''x'', ''y'']"] f
  have "calls (snd (run sample_runtime (staged_world sample_rp) sample_rp None (Some [''x'', ''y'']))) =
     calls (staged_world sample_rp) @
       [ExecuteNoenv
          [''sudo'', ''-u'', ''unprivileged'', ''timeout'', ''10s'', ''bash'', ''-c'',
           ''LD_PRELOAD=/preloader.so /workspace/sessions/tmp/main '' @ [CHR 0x60] @ ''echo x y'' @ [CHR 0x60]]]"
    by (simp add: effective_cli_def py_not_def os_path_join_def)
  with h n p show ?thesis by blast
qed

text \<open>
  C7 as stated fails: the arguments are not escaped, so the one argument \<open>a b\<close> and
  the two arguments \<open>a\<close>, \<open>b\<close> give the same console event and the same command.
\<close>

theorem argument_splitting_counterexample:
  "[''a b''] \<noteq> [''a'', ''b''] \<and>
   main sample_rp = Some ''main'' \<and>
   run sample_runtime (staged_world sample_rp) sample_rp None (Some [''a b'']) =
     run sample_runtime (staged_world sample_rp) sample_rp None (Some [''a'', ''b''])"
proof -
  have h: "main sample_rp = Some ''main''" by (simp add: sample_rp_def)
  have n: "''main'' \<noteq> []" by simp
  have e: "effective_cli (Some [''a b'']) (cli sample_rp) = [''a b'']"
          "effective_cli (Some [''a'', ''b'']) (cli sample_rp) = [''a'', ''b'']"
    by (simp_all add: effective_cli_def py_not_def)
  have l: "run_line (remote_tempd sample_rp) ''main'' [''a b''] =
           run_line (remote_tempd sample_rp) ''main'' [''a'', ''b'']"
    by (simp add: run_line_def)
  have j: "join '' '' [''a b''] = join '' '' [''a'', ''b'']" by simp
  have "run sample_runtime (staged_world sample_rp) sample_rp None (Some [''a b'']) =
     run sample_runtime (staged_world sample_rp) sample_rp None (Some [''a'', ''b''])"
    unfolding run_with_main[OF h n] e l j ..
  with h show ?thesis by simp
qed

section \<open>Submission\<close>

lemma strip_files_no_lab:
  "list_all (\<lambda>f. basename f \<noteq> LAB_IO_FILE) files \<Longrightarrow>
     fst (snd (strip_files e files (c, l, s))) = l"
  by (induction files arbitrary: c l s) auto

lemma project_init_lab_list:
  assumes "project_init e files sm = Inr p"
  shows "lab_list p = fst (snd (strip_files e files (None, None, [])))"
  using assms
  by (auto simp: project_init_def Let_def split: prod.splits list.splits)

lemma remote_init_project:
  assumes "remote_init e r w0 tid files sm = (Inr rp, w)"
  shows "\<exists>p. project_init e files sm = Inr p \<and> lab_list rp = lab_list p \<and> main rp = main p \<and>
             cli rp = cli p \<and> file_list rp = file_list p"
  using assms
  by (auto simp: remote_init_def remote_construct_def Let_def split: sum.splits if_splits)

lemma submit_without_main:
  "main rp = None \<Longrightarrow>
     submit e r w rp = (Inl (SubmitError ''Cannot run program without main''), w)"
  by (simp add: submit_def py_not_def)

text \<open>
  C4. With the entry point absent, \<open>submit\<close> fails with SubmitError
  (\<open>submit_without_main\<close>). When no test-specification file is among the uploaded files
  and the project has an entry point, \<open>submit\<close> does not reach its SubmitError: the
  constructor never assigns \<open>lab_list\<close>, and the test \<open>not self.lab_list\<close> raises
  AttributeError.
\<close>

theorem submit_without_test_specification:
  assumes "list_all (\<lambda>f. basename f \<noteq> LAB_IO_FILE) files"
    and "remote_init e r w0 tid files sm = (Inr rp, w)"
    and "main rp = Some m" and "m \<noteq> []"
  shows "submit e r w rp = (Inl (AttributeError ''lab_list''), w)"
proof -
  obtain p where p: "project_init e files sm = Inr p" and l: "lab_list rp = lab_list p"
    using remote_init_project[OF assms(2)] by blast
  have "lab_list p = None"
    using project_init_lab_list[OF p] strip_files_no_lab[OF assms(1)] by simp
  with l assms(3,4) show ?thesis
    by (simp add: submit_def py_not_def)
qed

theorem submit_without_test_specification_witness:
  "list_all (\<lambda>f. basename f \<noteq> LAB_IO_FILE) [main_adb] \<and>
   remote_init sample_env sample_runtime sample_world ''task'' [main_adb] False =
     (Inr nolab_rp, staged_world nolab_rp) \<and>
   main nolab_rp = Some ''main'' \<and>
   submit sample_env sample_runtime (staged_world nolab_rp) nolab_rp =
     (Inl (AttributeError ''lab_list''), staged_world nolab_rp)"
proof -
  have a: "list_all (\<lambda>f. basename f \<noteq> LAB_IO_FILE) [main_adb]"
    by (simp add: main_adb_def LAB_IO_FILE_def)
  have m: "main nolab_rp = Some ''main''" by (simp add: nolab_rp_def)
  have n: "''main'' \<noteq> []" by simp
  from submit_without_test_specification[OF a nolab_rp_staged m n] a nolab_rp_staged m
  show ?thesis by blast
qed

lemma passed_recorded:
  "passed (l\<lparr>actual_output := Some out, actual_exit_code := Some code\<rparr>) = (out = expected_output l)"
  by (auto simp: passed_def)

lemma submit_loop_graded:
  assumes "main rp = Some m" and "m \<noteq> []"
  shows "submit_loop r rp ls seen successes w =
     (Inr (seen @ spec_graded r rp m (calls w) ls,
           successes @ map passed (spec_graded r rp m (calls w) ls)),
      w\<lparr>events := events w @ map (case_console rp m) ls,
        calls := calls w @ map (\<lambda>l. ExecuteNoenv (case_line rp m l)) ls\<rparr>)"
proof (induction ls arbitrary: seen successes w)
  case Nil
  show ?case by simp
next
  case (Cons l ls)
  show ?case
    by (simp add: run_with_main[OF assms] Cons.IH check_actual_def passed_recorded
          case_line_def case_console_def split: prod.splits)
qed

lemma spec_graded_keys:
  "length (spec_graded r rp m hist ls) = length ls \<and>
   map get_key (spec_graded r rp m hist ls) = map get_key ls \<and>
   map expected_output (spec_graded r rp m hist ls) = map expected_output ls"
  by (induction ls arbitrary: hist) (auto split: prod.splits)

text \<open>
  C5. For a project with an entry point (a non-empty name) and a non-empty list of test
  cases, \<open>submit\<close> succeeds; it issues exactly one run command per case, in parse order,
  each with the case's input and announced under the case's key; each case gets the
  output and exit code of its own run recorded; and the final report carries the
  conjunction of the per-case results, a case passing exactly when its recorded output
  is its expected output.
\<close>

theorem submit_grades_every_case:
  assumes "main rp = Some m" and "m \<noteq> []" and "lab_list rp = Some ll" and "ll \<noteq> []"
  shows "submit e r w rp =
     (Inr (rp\<lparr>lab_list := Some (spec_graded r rp m (calls w) ll)\<rparr>),
      w\<lparr>events := events w @ map (case_console rp m) ll @
                    [LabReport (list_all passed (spec_graded r rp m (calls w) ll))
                               (spec_graded r rp m (calls w) ll)],
        calls := calls w @ map (\<lambda>l. ExecuteNoenv (case_line rp m l)) ll\<rparr>) \<and>
     length (spec_graded r rp m (calls w) ll) = length ll \<and>
     map get_key (spec_graded r rp m (calls w) ll) = map get_key ll \<and>
     map expected_output (spec_graded r rp m (calls w) ll) = map expected_output ll"
proof -
  have t: "lab_list_truthy e ll"
    using assms(4) by (simp add: lab_list_truthy_def)
  have a: "list_all (\<lambda>b. b) (map passed (spec_graded r rp m (calls w) ll)) =
           list_all passed (spec_graded r rp m (calls w) ll)"
    by (simp add: list_all_iff)
  have "submit e r w rp =
     (Inr (rp\<lparr>lab_list := Some (spec_graded r rp m (calls w) ll)\<rparr>),
      w\<lparr>events := events w @ map (case_console rp m) ll @
                    [LabReport (list_all passed (spec_graded r rp m (calls w) ll))
                               (spec_graded r rp m (calls w) ll)],
        calls := calls w @ map (\<lambda>l. ExecuteNoenv (case_line rp m l)) ll\<rparr>)"
    using assms(1,2,3) t
    by (simp add: submit_def py_not_def submit_loop_graded[OF assms(1,2)] a get_results_def)
  with spec_graded_keys[of r rp m "calls w" ll] show ?thesis by blast
qed

theorem submit_grades_every_case_witness:
  "main sample_rp = Some ''main'' \<and> lab_list sample_rp = Some sample_labs \<and> sample_labs \<noteq> [] \<and>
   map actual_output (spec_graded sample_runtime sample_rp ''main'' (calls (staged_world sample_rp)) sample_labs)
     = [Some ''xx'', Some ''xxx''] \<and>
   map passed (spec_graded sample_runtime sample_rp ''main'' (calls (staged_world sample_rp)) sample_labs)
     = [True, False] \<and>
   drop 2 (calls (snd (submit sample_env sample_runtime (staged_world sample_rp) sample_rp))) =
     [ExecuteNoenv (run_line ''/workspace/sessions/tmp'' ''main'' [''a'', ''b'']),
      ExecuteNoenv (run_line ''/workspace/sessions/tmp'' ''main'' [''c''])] \<and>
   last (events (snd (submit sample_env sample_runtime (staged_world sample_rp) sample_rp))) =
     LabReport False
       (spec_graded sample_runtime sample_rp ''main'' (calls (staged_world sample_rp)) sample_labs)"
proof -
  have h: "main sample_rp = Some ''main''" by (simp add: sample_rp_def)
  have n: "''main'' \<noteq> []" by simp
  have l: "lab_list sample_rp = Some sample_labs" by (simp add: sample_rp_def)
  have ne: "sample_labs \<noteq> []" by (simp add: sample_labs_def)
  have g: "spec_graded sample_runtime sample_rp ''main'' (calls (staged_world sample_rp)) sample_labs =
     [\<lparr>get_key = ''t1'', get_input = [''a'', ''b''], expected_output = ''xx'',
       actual_output = Some ''xx'', actual_exit_code = Some 0\<rparr>,
      \<lparr>get_key = ''t2'', get_input = [''c''], expected_output = ''xxy'',
       actual_output = Some ''xxx'', actual_exit_code = Some 0\<rparr>]"
    by (simp add: sample_labs_def sample_runtime_def staged_world_def)
  have cl: "map (\<lambda>l. ExecuteNoenv (case_line sample_rp ''main'' l)) sample_labs =
     [ExecuteNoenv (run_line ''/workspace/sessions/tmp'' ''main'' [''a'', ''b'']),
      ExecuteNoenv (run_line ''/workspace/sessions/tmp'' ''main'' [''c''])]"
    by (simp add: sample_labs_def case_line_def sample_rp_def effective_cli_def py_not_def)
  have c2: "length (calls (staged_world sample_rp)) = 2" by (simp add: staged_world_def)
  from submit_grades_every_case[OF h n l ne, of sample_env sample_runtime "staged_world sample_rp"]
  have s: "submit sample_env sample_runtime (staged_world sample_rp) sample_rp =
     (Inr (sample_rp\<lparr>lab_list := Some (spec_graded sample_runtime sample_rp ''main'' (calls (staged_world sample_rp)) sample_labs)\<rparr>),
      (staged_world sample_rp)\<lparr>events := events (staged_world sample_rp) @ map (case_console sample_rp ''main'') sample_labs @
                    [LabReport (list_all passed (spec_graded sample_runtime sample_rp ''main'' (calls (staged_world sample_rp)) sample_labs))
                               (spec_graded sample_runtime sample_rp ''main'' (calls (staged_world sample_rp)) sample_labs)],
        calls := calls (staged_world sample_rp) @ map (\<lambda>l. ExecuteNoenv (case_line sample_rp ''main'' l)) sample_labs\<rparr>)"
    by blast
  have p: "map passed (spec_graded sample_runtime sample_rp ''main'' (calls (staged_world sample_rp)) sample_labs)
     = [True, False]"
    unfolding g by (simp add: passed_def)
  have lp: "list_all passed (spec_graded sample_runtime sample_rp ''main'' (calls (staged_world sample_rp)) sample_labs) = False"
    unfolding g by (simp add: passed_def)
  have ao: "map actual_output (spec_graded sample_runtime sample_rp ''main'' (calls (staged_world sample_rp)) sample_labs)
     = [Some ''xx'', Some ''xxx'']"
    unfolding g by simp
  have d: "drop 2 (calls (snd (submit sample_env sample_runtime (staged_world sample_rp) sample_rp))) =
     [ExecuteNoenv (run_line ''/workspace/sessions/tmp'' ''main'' [''a'', ''b'']),
      ExecuteNoenv (run_line ''/workspace/sessions/tmp'' ''main'' [''c''])]"
    unfolding s using c2 by (simp add: cl)
  have e: "last (events (snd (submit sample_env sample_runtime (staged_world sample_rp) sample_rp))) =
     LabReport False
       (spec_graded sample_runtime sample_rp ''main'' (calls (staged_world sample_rp)) sample_labs)"
    unfolding s by (simp add: lp)
  from h l ne ao p d e show ?thesis by blast
qed

section \<open>The archive\<close>

lemma nat_or_less_exp:
  fixes x y :: nat
  assumes "x < 2 ^ n" and "y < 2 ^ n"
  shows "x OR y < 2 ^ n"
proof -
  have "int x OR int y < 2 ^ n"
    using assms by (intro OR_upper) simp_all
  then have "int (x OR y) < int (2 ^ n)"
    by (simp add: of_nat_or_eq)
  then show ?thesis by (simp only: of_nat_less_iff)
qed

lemma localtime_ok_fits:
  assumes "localtime_ok dt"
  shows "dos_date dt \<le> 65535 \<and> dos_time dt \<le> 65535 \<and> \<not> fst dt < 1980"
proof -
  obtain y mo d h mi s where dt: "dt = (y, mo, d, h, mi, s)" by (cases dt)
  from assms dt have b: "1980 \<le> y" "y \<le> 2107" "mo \<le> 12" "d \<le> 31" "h \<le> 23" "mi \<le> 59" "s \<le> 61"
    by (simp_all add: localtime_ok_def)
  have y: "push_bit 9 (y - 1980) < (2::nat) ^ 16"
    using b(1,2) by (simp add: push_bit_eq_mult)
  have mo: "push_bit 5 mo < (2::nat) ^ 16" using b(3) by (simp add: push_bit_eq_mult)
  have d: "d < (2::nat) ^ 16" using b(4) by simp
  have h: "push_bit 11 h < (2::nat) ^ 16" using b(5) by (simp add: push_bit_eq_mult)
  have mi: "push_bit 5 mi < (2::nat) ^ 16" using b(6) by (simp add: push_bit_eq_mult)
  have s: "s div 2 < (2::nat) ^ 16" using b(7) by simp
  have "push_bit 9 (y - 1980) OR push_bit 5 mo OR d < (2::nat) ^ 16"
    by (intro nat_or_less_exp y mo d)
  moreover have "push_bit 11 h OR push_bit 5 mi OR (s div 2) < (2::nat) ^ 16"
    by (intro nat_or_less_exp h mi s)
  ultimately show ?thesis using b(1) by (simp add: dt dos_date_def dos_time_def)
qed

lemma writestr_ok:
  assumes "localtime_ok now" and "zip_nameable n"
  shows "writestr ct now n data =
     Inr \<lparr>filename = zip_filename n, dosdate = dos_date now, dostime = dos_time now,
          compress_type = ct, member_data = data\<rparr>"
  using localtime_ok_fits[OF assms(1)] assms(2)
  by (simp add: writestr_def zip_nameable_def)

lemma zip_loop_stamped:
  assumes "list_all (\<lambda>f. zip_nameable (get_name f)) fs"
    and "\<And>j. j < length fs \<Longrightarrow> localtime_ok (clock (i + j))"
  shows "zip_loop clock i fs = Inr (stamped clock i fs)"
  using assms
proof (induction fs arbitrary: i)
  case Nil
  show ?case by simp
next
  case (Cons f fs)
  have ok: "localtime_ok (clock i)" using Cons.prems(2)[of 0] by simp
  have nm: "zip_nameable (get_name f)" using Cons.prems(1) by simp
  have "zip_loop clock (Suc i) fs = Inr (stamped clock (Suc i) fs)"
  proof (rule Cons.IH)
    show "list_all (\<lambda>f. zip_nameable (get_name f)) fs" using Cons.prems(1) by simp
  next
    fix j assume "j < length fs"
    then show "localtime_ok (clock (Suc i + j))" using Cons.prems(2)[of "Suc j"] by simp
  qed
  then show ?case by (simp add: writestr_ok[OF ok nm])
qed

lemma stamped_untimed:
  "map untimed (stamped clock i fs) =
     map (\<lambda>f. (zip_filename (get_name f), ZIP_DEFLATED, get_content f)) fs"
  by (induction fs arbitrary: i) (simp_all add: untimed_def)

lemma stamped_stamps:
  "map (\<lambda>z. (dosdate z, dostime z)) (stamped clock i fs) =
     map (\<lambda>j. (dos_date (clock j), dos_time (clock j))) [i..<i + length fs]"
proof (induction fs arbitrary: i)
  case Nil
  show ?case by simp
next
  case (Cons f fs)
  have "[i..<i + length (f # fs)] = i # [Suc i..<Suc i + length fs]"
    by (subst upt_rec) simp
  then show ?case using Cons.IH[of "Suc i"] by (simp del: upt_Suc)
qed

lemma stamped_same:
  "(\<And>j. j < length fs \<Longrightarrow> dos_date (clock (i + j)) = dos_date (clock' (i + j)) \<and>
                            dos_time (clock (i + j)) = dos_time (clock' (i + j))) \<Longrightarrow>
     stamped clock i fs = stamped clock' i fs"
proof (induction fs arbitrary: i)
  case Nil
  show ?case by simp
next
  case (Cons f fs)
  have h: "dos_date (clock i) = dos_date (clock' i) \<and> dos_time (clock i) = dos_time (clock' i)"
    using Cons.prems[of 0] by simp
  have "stamped clock (Suc i) fs = stamped clock' (Suc i) fs"
  proof (rule Cons.IH)
    fix j assume "j < length fs"
    then show "dos_date (clock (Suc i + j)) = dos_date (clock' (Suc i + j)) \<and>
               dos_time (clock (Suc i + j)) = dos_time (clock' (Suc i + j))"
      using Cons.prems[of "Suc j"] by simp
  qed
  with h show ?case by simp
qed

lemma stamped_read:
  "stamped clock i fs = stamped clock' i fs \<Longrightarrow> j < length fs \<Longrightarrow>
     dos_date (clock (i + j)) = dos_date (clock' (i + j)) \<and>
     dos_time (clock (i + j)) = dos_time (clock' (i + j))"
proof (induction fs arbitrary: i j)
  case Nil
  then show ?case by simp
next
  case (Cons f fs)
  show ?case
  proof (cases j)
    case 0
    with Cons.prems show ?thesis by simp
  next
    case (Suc k)
    with Cons.prems have "dos_date (clock (Suc i + k)) = dos_date (clock' (Suc i + k)) \<and>
                          dos_time (clock (Suc i + k)) = dos_time (clock' (Suc i + k))"
      by (intro Cons.IH) simp_all
    with Suc show ?thesis by simp
  qed
qed

text \<open>
  C1, as amended. For file names that the ZIP header can hold and clock readings with a
  year from 1980 to 2107, \<open>zip\<close> returns an archive with one deflated member per file,
  in file order, whose names (cut at a NUL) and data are a function of the Project's
  file list alone. Each member also stores the local time of its write in DOS format,
  the seconds halved, so two calls give the same archive exactly when the DOS time
  stamps of their writes agree.
\<close>

theorem zip_members_and_dos_time:
  assumes "list_all (\<lambda>f. zip_nameable (get_name f)) (file_list p)"
    and "\<forall>i<length (file_list p). localtime_ok (clock i)"
    and "\<forall>i<length (file_list p). localtime_ok (clock' i)"
  shows "(\<exists>zs. zip_project clock p = Inr zs \<and>
            map untimed zs =
              map (\<lambda>f. (zip_filename (get_name f), ZIP_DEFLATED, get_content f)) (file_list p) \<and>
            map (\<lambda>z. (dosdate z, dostime z)) zs =
              map (\<lambda>i. (dos_date (clock i), dos_time (clock i))) [0..<length (file_list p)]) \<and>
         (zip_project clock p = zip_project clock' p \<longleftrightarrow>
            (\<forall>i<length (file_list p).
               dos_date (clock i) = dos_date (clock' i) \<and> dos_time (clock i) = dos_time (clock' i)))"
proof -
  have a: "zip_project clock p = Inr (stamped clock 0 (file_list p))"
    unfolding zip_project_def using assms(1,2) by (intro zip_loop_stamped) simp_all
  have b: "zip_project clock' p = Inr (stamped clock' 0 (file_list p))"
    unfolding zip_project_def using assms(1,3) by (intro zip_loop_stamped) simp_all
  have c: "stamped clock 0 (file_list p) = stamped clock' 0 (file_list p)"
    if "\<forall>i<length (file_list p).
          dos_date (clock i) = dos_date (clock' i) \<and> dos_time (clock i) = dos_time (clock' i)"
    using that by (intro stamped_same) simp
  have d: "\<forall>i<length (file_list p).
          dos_date (clock i) = dos_date (clock' i) \<and> dos_time (clock i) = dos_time (clock' i)"
    if "stamped clock 0 (file_list p) = stamped clock' 0 (file_list p)"
    using stamped_read[OF that] by simp
  have e: "map (\<lambda>z. (dosdate z, dostime z)) (stamped clock 0 (file_list p)) =
              map (\<lambda>i. (dos_date (clock i), dos_time (clock i))) [0..<length (file_list p)]"
    using stamped_stamps[of clock 0 "file_list p"] by simp
  have u: "map untimed (stamped clock 0 (file_list p)) =
              map (\<lambda>f. (zip_filename (get_name f), ZIP_DEFLATED, get_content f)) (file_list p)"
    by (rule stamped_untimed)
  have first: "\<exists>zs. zip_project clock p = Inr zs \<and>
            map untimed zs =
              map (\<lambda>f. (zip_filename (get_name f), ZIP_DEFLATED, get_content f)) (file_list p) \<and>
            map (\<lambda>z. (dosdate z, dostime z)) zs =
              map (\<lambda>i. (dos_date (clock i), dos_time (clock i))) [0..<length (file_list p)]"
    using a u e by (intro exI[of _ "stamped clock 0 (file_list p)"] conjI)
  have second: "zip_project clock p = zip_project clock' p \<longleftrightarrow>
            (\<forall>i<length (file_list p).
               dos_date (clock i) = dos_date (clock' i) \<and> dos_time (clock i) = dos_time (clock' i))"
  proof
    assume "zip_project clock p = zip_project clock' p"
    then have "stamped clock 0 (file_list p) = stamped clock' 0 (file_list p)"
      unfolding a b by (simp only: sum.inject)
    then show "\<forall>i<length (file_list p).
               dos_date (clock i) = dos_date (clock' i) \<and> dos_time (clock i) = dos_time (clock' i)"
      by (rule d)
  next
    assume "\<forall>i<length (file_list p).
               dos_date (clock i) = dos_date (clock' i) \<and> dos_time (clock i) = dos_time (clock' i)"
    then have "stamped clock 0 (file_list p) = stamped clock' 0 (file_list p)" by (rule c)
    then show "zip_project clock p = zip_project clock' p"
      unfolding a b by (simp only:)
  qed
  from first second show ?thesis by blast
qed

lemma sample_rp_nameable: "list_all (\<lambda>f. zip_nameable (get_name f)) (file_list sample_rp)"
  by (simp add: sample_rp_def main_file_def sample_gpr_def sample_adc_def zip_nameable_def
        zip_filename_def encoded_length_def)

lemma sample_clocks_ok: "localtime_ok (clock_a i)" "localtime_ok (clock_b i)" "localtime_ok (clock_c i)"
  by (simp_all add: localtime_ok_def clock_a_def clock_b_def clock_c_def)

theorem zip_members_and_dos_time_witness:
  "list_all (\<lambda>f. zip_nameable (get_name f)) (file_list sample_rp) \<and>
   localtime_ok (2024, 1, 1, 12, 0, 0) \<and> localtime_ok (2024, 1, 1, 12, 0, 1) \<and>
   (\<exists>zs. zip_project clock_a sample_rp = Inr zs \<and>
         map untimed zs =
           [(''main.adb'', ZIP_DEFLATED, ''procedure Main is begin null; end Main;''),
            (''main.gpr'', ZIP_DEFLATED, ''project Main is end Main;''),
            (''main.adc'', ZIP_DEFLATED, COMMON_ADC)] \<and>
         map (\<lambda>z. (dosdate z, dostime z)) zs = [(22561, 24576), (22561, 24576), (22561, 24576)]) \<and>
   zip_project clock_a sample_rp = zip_project clock_c sample_rp"
proof -
  have l: "length (file_list sample_rp) = 3" by (simp add: sample_rp_def)
  have ok: "\<forall>i<length (file_list sample_rp). localtime_ok (clock_a i)"
           "\<forall>i<length (file_list sample_rp). localtime_ok (clock_c i)"
    by (simp_all add: sample_clocks_ok)
  have lt: "localtime_ok (2024, 1, 1, 12, 0, 0)" "localtime_ok (2024, 1, 1, 12, 0, 1)"
    by (simp_all add: localtime_ok_def)
  have f: "map (\<lambda>f. (zip_filename (get_name f), ZIP_DEFLATED, get_content f)) (file_list sample_rp) =
     [(''main.adb'', ZIP_DEFLATED, ''procedure Main is begin null; end Main;''),
      (''main.gpr'', ZIP_DEFLATED, ''project Main is end Main;''),
      (''main.adc'', ZIP_DEFLATED, COMMON_ADC)]"
    by (simp add: sample_rp_def main_file_def sample_gpr_def sample_adc_def zip_filename_def)
  have st: "map (\<lambda>i. (dos_date (clock_a i), dos_time (clock_a i))) [0..<length (file_list sample_rp)] =
     [(22561, 24576), (22561, 24576), (22561, 24576)]"
  proof -
    have "[0..<3] = [0, 1, 2::nat]" by code_simp
    then show ?thesis by (simp add: l clock_a_def dos_date_def dos_time_def)
  qed
  have same: "\<forall>i<length (file_list sample_rp).
     dos_date (clock_a i) = dos_date (clock_c i) \<and> dos_time (clock_a i) = dos_time (clock_c i)"
    by (simp add: clock_a_def clock_c_def dos_date_def dos_time_def)
  note t = zip_members_and_dos_time[OF sample_rp_nameable ok(1) ok(2)]
  from t f st have a: "\<exists>zs. zip_project clock_a sample_rp = Inr zs \<and>
         map untimed zs =
           [(''main.adb'', ZIP_DEFLATED, ''procedure Main is begin null; end Main;''),
            (''main.gpr'', ZIP_DEFLATED, ''project Main is end Main;''),
            (''main.adc'', ZIP_DEFLATED, COMMON_ADC)] \<and>
         map (\<lambda>z. (dosdate z, dostime z)) zs = [(22561, 24576), (22561, 24576), (22561, 24576)]"
    by simp
  from t same have b: "zip_project clock_a sample_rp = zip_project clock_c sample_rp"
    by blast
  from sample_rp_nameable lt a b show ?thesis by blast
qed

text \<open>
  C1 as stated fails: for the project staged from \<open>main.adb\<close>, \<open>cli.txt\<close> and
  \<open>lab_io.txt\<close>, a call of \<open>zip\<close> at noon and one two seconds later both return an
  archive, and the two archives differ.
\<close>

theorem zip_twice_counterexample:
  "remote_init sample_env sample_runtime sample_world ''task'' [main_adb, cli_txt, lab_io_txt] False
     = (Inr sample_rp, staged_world sample_rp) \<and>
   zip_project clock_a sample_rp = Inr (stamped clock_a 0 (file_list sample_rp)) \<and>
   zip_project clock_b sample_rp = Inr (stamped clock_b 0 (file_list sample_rp)) \<and>
   zip_project clock_a sample_rp \<noteq> zip_project clock_b sample_rp"
proof -
  have a: "zip_project clock_a sample_rp = Inr (stamped clock_a 0 (file_list sample_rp))"
    unfolding zip_project_def using sample_rp_nameable
    by (intro zip_loop_stamped) (simp_all add: sample_clocks_ok)
  have b: "zip_project clock_b sample_rp = Inr (stamped clock_b 0 (file_list sample_rp))"
    unfolding zip_project_def using sample_rp_nameable
    by (intro zip_loop_stamped) (simp_all add: sample_clocks_ok)
  have "stamped clock_a 0 (file_list sample_rp) \<noteq> stamped clock_b 0 (file_list sample_rp)"
    by (simp add: sample_rp_def clock_a_def clock_b_def dos_time_def)
  with a b have "zip_project clock_a sample_rp \<noteq> zip_project clock_b sample_rp" by simp
  with sample_rp_staged a b show ?thesis by blast
qed

section \<open>Teardown\<close>

lemma remote_construct_failed:
  assumes "project_init e files sm = Inl err"
  shows "remote_construct e r w0 tid files sm = (Inl err, Unassigned, w0)"
  using assms by (simp add: remote_construct_def)

lemma remote_construct_assigned:
  assumes "project_init e files sm = Inr p"
    and "remote_construct e r w0 tid files sm = (res, attrs, w)"
  shows "\<exists>l rt. attrs = Assigned l rt \<and> l \<in> set (local_dirs w) \<and>
                 (\<forall>rp. res = Inr rp \<longrightarrow> local_tempd rp = l \<and> remote_tempd rp = rt)"
  using assms
  by (auto simp: remote_construct_def Let_def split: if_splits)

lemma remote_del_present:
  assumes "l \<in> set (local_dirs w)"
  shows "remote_del w (Assigned l rt) =
     (Inr (), w\<lparr>local_dirs := removeAll l (local_dirs w),
                 remote_dirs := removeAll rt (remote_dirs w),
                 calls := calls w @ [Rmdir rt]\<rparr>)"
  using assms by simp

lemma remote_del_absent:
  assumes "l \<notin> set (local_dirs w)"
  shows "remote_del w (Assigned l rt) = (Inl (FileNotFoundError l), w)"
  using assms by simp

lemma teardowns_unchanged:
  assumes "snd (remote_del w attrs) = w"
  shows "teardowns n w attrs = w"
  using assms by (induction n) simp_all

lemma remote_del_settles:
  "snd (remote_del (snd (remote_del w attrs)) attrs) = snd (remote_del w attrs)"
  by (cases attrs) simp_all

lemma teardowns_once: "teardowns (Suc n) w attrs = snd (remote_del w attrs)"
  using teardowns_unchanged[OF remote_del_settles] by simp

text \<open>
  C10, as amended. Teardown is not total and cannot be repeated without an error, but
  its effect happens once.
  \<^item> When the constructor failed in the Project constructor (more than one entry point),
    no workspace was created, and teardown fails with AttributeError and changes nothing.
  \<^item> When the constructor got past the Project constructor, whether the staging then
    completed or failed in the container, the first teardown succeeds: it removes the
    local staging directory and has the container remove the remote workspace directory.
    It succeeds in every state in which the local staging directory exists, also when
    the remote path is already gone. A second teardown fails with FileNotFoundError at
    the local removal and changes nothing.
  \<^item> However many times teardown is invoked, the state it leaves is the state that the
    first invocation leaves.
\<close>

theorem teardown_after_construction:
  assumes "remote_construct e r w0 tid files sm = (res, attrs, w)"
  shows "(\<forall>err. project_init e files sm = Inl err \<longrightarrow>
            res = Inl err \<and> w = w0 \<and>
            remote_del w attrs = (Inl (AttributeError ''local_tempd''), w)) \<and>
         (\<forall>p. project_init e files sm = Inr p \<longrightarrow>
            (\<exists>l rt. attrs = Assigned l rt \<and>
               (\<forall>rp. res = Inr rp \<longrightarrow> local_tempd rp = l \<and> remote_tempd rp = rt) \<and>
               remote_del w attrs =
                 (Inr (), w\<lparr>local_dirs := removeAll l (local_dirs w),
                             remote_dirs := removeAll rt (remote_dirs w),
                             calls := calls w @ [Rmdir rt]\<rparr>) \<and>
               remote_del (snd (remote_del w attrs)) attrs =
                 (Inl (FileNotFoundError l), snd (remote_del w attrs)) \<and>
               (\<forall>w'. l \<in> set (local_dirs w') \<longrightarrow>
                  fst (remote_del w' attrs) = Inr () \<and>
                  l \<notin> set (local_dirs (snd (remote_del w' attrs))) \<and>
                  rt \<notin> set (remote_dirs (snd (remote_del w' attrs)))))) \<and>
         (\<forall>n. teardowns (Suc n) w attrs = snd (remote_del w attrs))"
proof -
  have failed: "res = Inl err \<and> w = w0 \<and>
            remote_del w attrs = (Inl (AttributeError ''local_tempd''), w)"
    if "project_init e files sm = Inl err" for err
    using remote_construct_failed[OF that, of r w0 tid] assms by simp
  have built: "\<exists>l rt. attrs = Assigned l rt \<and>
               (\<forall>rp. res = Inr rp \<longrightarrow> local_tempd rp = l \<and> remote_tempd rp = rt) \<and>
               remote_del w attrs =
                 (Inr (), w\<lparr>local_dirs := removeAll l (local_dirs w),
                             remote_dirs := removeAll rt (remote_dirs w),
                             calls := calls w @ [Rmdir rt]\<rparr>) \<and>
               remote_del (snd (remote_del w attrs)) attrs =
                 (Inl (FileNotFoundError l), snd (remote_del w attrs)) \<and>
               (\<forall>w'. l \<in> set (local_dirs w') \<longrightarrow>
                  fst (remote_del w' attrs) = Inr () \<and>
                  l \<notin> set (local_dirs (snd (remote_del w' attrs))) \<and>
                  rt \<notin> set (remote_dirs (snd (remote_del w' attrs))))"
    if built_p: "project_init e files sm = Inr p" for p
  proof -
    obtain l rt where a: "attrs = Assigned l rt" and l: "l \<in> set (local_dirs w)"
      and rp: "\<forall>rp. res = Inr rp \<longrightarrow> local_tempd rp = l \<and> remote_tempd rp = rt"
      using remote_construct_assigned[OF built_p assms] by blast
    have one: "remote_del w attrs =
                 (Inr (), w\<lparr>local_dirs := removeAll l (local_dirs w),
                             remote_dirs := removeAll rt (remote_dirs w),
                             calls := calls w @ [Rmdir rt]\<rparr>)"
      unfolding a using l by (rule remote_del_present)
    have "l \<notin> set (local_dirs (snd (remote_del w attrs)))"
      unfolding one by simp
    then have two: "remote_del (snd (remote_del w attrs)) attrs =
                 (Inl (FileNotFoundError l), snd (remote_del w attrs))"
      unfolding a by (rule remote_del_absent)
    have any: "\<forall>w'. l \<in> set (local_dirs w') \<longrightarrow>
                  fst (remote_del w' attrs) = Inr () \<and>
                  l \<notin> set (local_dirs (snd (remote_del w' attrs))) \<and>
                  rt \<notin> set (remote_dirs (snd (remote_del w' attrs)))"
      unfolding a by simp
    from a rp one two any show ?thesis by blast
  qed
  have A: "\<forall>err. project_init e files sm = Inl err \<longrightarrow>
            res = Inl err \<and> w = w0 \<and>
            remote_del w attrs = (Inl (AttributeError ''local_tempd''), w)"
    using failed by blast
  have B: "\<forall>p. project_init e files sm = Inr p \<longrightarrow>
            (\<exists>l rt. attrs = Assigned l rt \<and>
               (\<forall>rp. res = Inr rp \<longrightarrow> local_tempd rp = l \<and> remote_tempd rp = rt) \<and>
               remote_del w attrs =
                 (Inr (), w\<lparr>local_dirs := removeAll l (local_dirs w),
                             remote_dirs := removeAll rt (remote_dirs w),
                             calls := calls w @ [Rmdir rt]\<rparr>) \<and>
               remote_del (snd (remote_del w attrs)) attrs =
                 (Inl (FileNotFoundError l), snd (remote_del w attrs)) \<and>
               (\<forall>w'. l \<in> set (local_dirs w') \<longrightarrow>
                  fst (remote_del w' attrs) = Inr () \<and>
                  l \<notin> set (local_dirs (snd (remote_del w' attrs))) \<and>
                  rt \<notin> set (remote_dirs (snd (remote_del w' attrs)))))"
    using built by (intro allI impI)
  have C: "\<forall>n. teardowns (Suc n) w attrs = snd (remote_del w attrs)"
    using teardowns_once by (intro allI)
  show ?thesis by (rule conjI[OF A conjI[OF B C]])
qed

lemma nolab_rp_constructed:
  "remote_construct sample_env sample_runtime sample_world ''task'' [main_adb] False
     = (Inr nolab_rp, Assigned ''/tmp/tmp'' ''/workspace/sessions/tmp'', staged_world nolab_rp)"
  by (simp add: remote_construct_def project_init_def sample_env_def sample_runtime_def
        sample_world_def main_adb_def nolab_rp_def staged_world_def
        main_file_def sample_gpr_def sample_adc_def
        new_file_def insert_languages_def define_mains_def find_mains_def
        project_languages_def adc_content_def gpr_name_def CLI_FILE_def LAB_IO_FILE_def
        ends_with_def os_path_join_def os_path_basename_def
        os_path_normpath_def TEMP_WORKSPACE_BASEDIR_def Let_def)

lemma nolab_rp_push_failed:
  "remote_construct sample_env failing_runtime sample_world ''task'' [main_adb] False
     = (Inl ContainerError, Assigned ''/tmp/tmp'' ''/workspace/sessions/tmp'', staged_world nolab_rp)"
  by (simp add: remote_construct_def project_init_def sample_env_def sample_runtime_def
        failing_runtime_def
        sample_world_def main_adb_def nolab_rp_def staged_world_def
        main_file_def sample_gpr_def sample_adc_def
        new_file_def insert_languages_def define_mains_def find_mains_def
        project_languages_def adc_content_def gpr_name_def CLI_FILE_def LAB_IO_FILE_def
        ends_with_def os_path_join_def os_path_basename_def
        os_path_normpath_def TEMP_WORKSPACE_BASEDIR_def Let_def)

lemma two_mains_rejected:
  "project_init sample_env [main_adb, main_adb] False =
     Inl (ProjectError ''More than one main found in project'')"
  by (simp add: project_init_def sample_env_def main_adb_def new_file_def find_mains_def
        CLI_FILE_def LAB_IO_FILE_def Let_def)

lemma main_adb_assembled: "\<exists>p. project_init sample_env [main_adb] False = Inr p"
  using nolab_rp_staged
  by (auto simp: remote_init_def remote_construct_def Let_def split: sum.splits if_splits)

theorem teardown_after_construction_witness:
  "remote_construct sample_env failing_runtime sample_world ''task'' [main_adb] False
     = (Inl ContainerError, Assigned ''/tmp/tmp'' ''/workspace/sessions/tmp'', staged_world nolab_rp) \<and>
   (\<exists>p. project_init sample_env [main_adb] False = Inr p) \<and>
   remote_del (staged_world nolab_rp) (Assigned ''/tmp/tmp'' ''/workspace/sessions/tmp'') =
     (Inr (), \<lparr>calls = [Mkdir ''/workspace/sessions/tmp'',
                         PushFiles (file_list nolab_rp) ''/workspace/sessions/tmp'',
                         Rmdir ''/workspace/sessions/tmp''],
               events = [], local_dirs = [], remote_dirs = []\<rparr>) \<and>
   teardowns 3 (staged_world nolab_rp) (Assigned ''/tmp/tmp'' ''/workspace/sessions/tmp'') =
     \<lparr>calls = [Mkdir ''/workspace/sessions/tmp'',
               PushFiles (file_list nolab_rp) ''/workspace/sessions/tmp'',
               Rmdir ''/workspace/sessions/tmp''],
      events = [], local_dirs = [], remote_dirs = []\<rparr> \<and>
   project_init sample_env [main_adb, main_adb] False =
     Inl (ProjectError ''More than one main found in project'') \<and>
   remote_del sample_world Unassigned = (Inl (AttributeError ''local_tempd''), sample_world)"
proof -
  obtain p where p: "project_init sample_env [main_adb] False = Inr p"
    using main_adb_assembled by blast
  have f: "local_tempd nolab_rp = ''/tmp/tmp''" "remote_tempd nolab_rp = ''/workspace/sessions/tmp''"
    by (simp_all add: nolab_rp_def)
  note t = teardown_after_construction[OF nolab_rp_push_failed]
  have d: "remote_del (staged_world nolab_rp) (Assigned ''/tmp/tmp'' ''/workspace/sessions/tmp'') =
     (Inr (), \<lparr>calls = [Mkdir ''/workspace/sessions/tmp'',
                         PushFiles (file_list nolab_rp) ''/workspace/sessions/tmp'',
                         Rmdir ''/workspace/sessions/tmp''],
               events = [], local_dirs = [], remote_dirs = []\<rparr>)"
    using t p by (simp add: staged_world_def f)
  from t have "teardowns (Suc 2) (staged_world nolab_rp) (Assigned ''/tmp/tmp'' ''/workspace/sessions/tmp'') =
     snd (remote_del (staged_world nolab_rp) (Assigned ''/tmp/tmp'' ''/workspace/sessions/tmp''))"
    by blast
  then have n: "teardowns 3 (staged_world nolab_rp) (Assigned ''/tmp/tmp'' ''/workspace/sessions/tmp'') =
     \<lparr>calls = [Mkdir ''/workspace/sessions/tmp'',
               PushFiles (file_list nolab_rp) ''/workspace/sessions/tmp'',
               Rmdir ''/workspace/sessions/tmp''],
      events = [], local_dirs = [], remote_dirs = []\<rparr>"
    unfolding d by (simp add: numeral_3_eq_3)
  have c: "remote_construct sample_env sample_runtime sample_world ''task'' [main_adb, main_adb] False
     = (Inl (ProjectError ''More than one main found in project''), Unassigned, sample_world)"
    using two_mains_rejected by (rule remote_construct_failed)
  from teardown_after_construction[OF c] two_mains_rejected
  have u: "remote_del sample_world Unassigned = (Inl (AttributeError ''local_tempd''), sample_world)"
    by blast
  from nolab_rp_push_failed p d n two_mains_rejected u show ?thesis by blast
qed

text \<open>
  C10 as stated fails twice over: on the project staged from \<open>main.adb\<close> the first
  teardown succeeds and the second raises FileNotFoundError; and after a constructor
  that met two entry points, teardown raises AttributeError.
\<close>

theorem teardown_counterexample:
  "remote_construct sample_env sample_runtime sample_world ''task'' [main_adb] False
     = (Inr nolab_rp, Assigned ''/tmp/tmp'' ''/workspace/sessions/tmp'', staged_world nolab_rp) \<and>
   fst (remote_del (staged_world nolab_rp) (Assigned ''/tmp/tmp'' ''/workspace/sessions/tmp'')) = Inr () \<and>
   remote_del (snd (remote_del (staged_world nolab_rp) (Assigned ''/tmp/tmp'' ''/workspace/sessions/tmp'')))
       (Assigned ''/tmp/tmp'' ''/workspace/sessions/tmp'') =
     (Inl (FileNotFoundError ''/tmp/tmp''),
      snd (remote_del (staged_world nolab_rp) (Assigned ''/tmp/tmp'' ''/workspace/sessions/tmp''))) \<and>
   remote_construct sample_env sample_runtime sample_world ''task'' [main_adb, main_adb] False
     = (Inl (ProjectError ''More than one main found in project''), Unassigned, sample_world) \<and>
   remote_del sample_world Unassigned = (Inl (AttributeError ''local_tempd''), sample_world)"
proof -
  have a: "fst (remote_del (staged_world nolab_rp) (Assigned ''/tmp/tmp'' ''/workspace/sessions/tmp'')) = Inr ()"
    by (simp add: staged_world_def nolab_rp_def)
  have b: "remote_del (snd (remote_del (staged_world nolab_rp) (Assigned ''/tmp/tmp'' ''/workspace/sessions/tmp'')))
       (Assigned ''/tmp/tmp'' ''/workspace/sessions/tmp'') =
     (Inl (FileNotFoundError ''/tmp/tmp''),
      snd (remote_del (staged_world nolab_rp) (Assigned ''/tmp/tmp'' ''/workspace/sessions/tmp'')))"
    by (simp add: staged_world_def nolab_rp_def)
  have c: "remote_construct sample_env sample_runtime sample_world ''task'' [main_adb, main_adb] False
     = (Inl (ProjectError ''More than one main found in project''), Unassigned, sample_world)"
    using two_mains_rejected by (rule remote_construct_failed)
  have d: "remote_del sample_world Unassigned = (Inl (AttributeError ''local_tempd''), sample_world)"
    by simp
  from nolab_rp_constructed a b c d show ?thesis by blast
qed

end
